theory Spec2Isabelle
  imports Complex_Main "HOL-Library.Multiset" "HOL-Library.Monad_Syntax"
begin

section \<open>Text primitives\<close>

text \<open>
  A JavaScript string is a sequence of UTF-16 code units. The embedding uses
  \<^typ>\<open>string\<close>, so a text is a list of code units below 256 (the Latin-1 range); the
  en dash and em dash of the \<^verbatim>\<open>DATE_RANGE\<close> character class lie outside that range and
  never occur in a modelled text. Numbers that the source holds as IEEE doubles
  (confidences, durations) are rationals here; the constants and the comparisons of the
  source are exact on them, and where the source adds, multiplies or divides confidences
  the rounded operations are parameters of the model.
\<close>

definition isDigit :: "char \<Rightarrow> bool" where
  "isDigit c = (c \<in> set ''0123456789'')"

text \<open>The class \<^verbatim>\<open>\w\<close> of a regular expression without the unicode flag.\<close>

definition isWordChar :: "char \<Rightarrow> bool" where
  "isWordChar c =
     (c \<in> set ''abcdefghijklmnopqrstuvwxyzABCDEFGHIJKLMNOPQRSTUVWXYZ0123456789_'')"

text \<open>
  White space as \<^verbatim>\<open>String.prototype.trim\<close> and the class \<^verbatim>\<open>\s\<close> see it: tab, line
  feed, vertical tab, form feed, carriage return, space and the no-break space.
\<close>

definition isSpace :: "char \<Rightarrow> bool" where
  "isSpace c = (c \<in> set [CHR 0x09, CHR 0x0A, CHR 0x0B, CHR 0x0C, CHR 0x0D, CHR 0x20, CHR 0xA0])"

text \<open>
  \<^verbatim>\<open>toLowerCase\<close> on one code unit: the ASCII capitals and the Latin-1 capitals
  (0xC0 to 0xDE without the multiplication sign 0xD7) move up by 32, which sets bit 5 of
  the code unit.
\<close>

definition upperCaseLetters :: string where
  "upperCaseLetters =
     ''ABCDEFGHIJKLMNOPQRSTUVWXYZ'' @
     [CHR 0xC0, CHR 0xC1, CHR 0xC2, CHR 0xC3, CHR 0xC4, CHR 0xC5, CHR 0xC6, CHR 0xC7,
      CHR 0xC8, CHR 0xC9, CHR 0xCA, CHR 0xCB, CHR 0xCC, CHR 0xCD, CHR 0xCE, CHR 0xCF,
      CHR 0xD0, CHR 0xD1, CHR 0xD2, CHR 0xD3, CHR 0xD4, CHR 0xD5, CHR 0xD6,
      CHR 0xD8, CHR 0xD9, CHR 0xDA, CHR 0xDB, CHR 0xDC, CHR 0xDD, CHR 0xDE]"

definition toLowerChar :: "char \<Rightarrow> char" where
  "toLowerChar c =
     (if c \<in> set upperCaseLetters
      then (case c of Char b0 b1 b2 b3 b4 b5 b6 b7 \<Rightarrow> Char b0 b1 b2 b3 b4 True b6 b7)
      else c)"

definition toLowerCase :: "string \<Rightarrow> string" where
  "toLowerCase s = map toLowerChar s"

text \<open>\<^verbatim>\<open>trim\<close>: the white space at both ends goes.\<close>

fun trimEnd :: "string \<Rightarrow> string" where
  "trimEnd [] = []"
| "trimEnd (c # cs) =
     (case trimEnd cs of
        [] \<Rightarrow> (if isSpace c then [] else [c])
      | r # rs \<Rightarrow> c # r # rs)"

definition trim :: "string \<Rightarrow> string" where
  "trim s = trimEnd (dropWhile isSpace s)"

fun startsWith :: "string \<Rightarrow> string \<Rightarrow> bool" where
  "startsWith s [] = True"
| "startsWith [] (k # ks) = False"
| "startsWith (c # cs) (k # ks) = (if c = k then startsWith cs ks else False)"

text \<open>\<^verbatim>\<open>haystack.includes(needle)\<close>.\<close>

fun stringIncludes :: "string \<Rightarrow> string \<Rightarrow> bool" where
  "stringIncludes [] k = (k = [])"
| "stringIncludes (c # cs) k = (if startsWith (c # cs) k then True else stringIncludes cs k)"

text \<open>\<^verbatim>\<open>haystack.indexOf(needle)\<close>; \<open>None\<close> stands for the result \<open>-1\<close>.\<close>

fun indexOfFrom :: "nat \<Rightarrow> string \<Rightarrow> string \<Rightarrow> nat option" where
  "indexOfFrom i [] k = (if k = [] then Some i else None)"
| "indexOfFrom i (c # cs) k =
     (if startsWith (c # cs) k then Some i else indexOfFrom (Suc i) cs k)"

definition indexOf :: "string \<Rightarrow> string \<Rightarrow> nat option" where
  "indexOf s k = indexOfFrom 0 s k"

text \<open>\<^verbatim>\<open>s.substring(a, b)\<close> for \<open>a \<le> b\<close>.\<close>

definition substring :: "string \<Rightarrow> nat \<Rightarrow> nat \<Rightarrow> string" where
  "substring s a b = take (b - a) (drop a s)"

text \<open>\<^verbatim>\<open>array.indexOf(x)\<close> and \<^verbatim>\<open>array.findIndex(p)\<close>.\<close>

fun findIndexFrom :: "nat \<Rightarrow> ('a \<Rightarrow> bool) \<Rightarrow> 'a list \<Rightarrow> nat option" where
  "findIndexFrom i p [] = None"
| "findIndexFrom i p (x # xs) = (if p x then Some i else findIndexFrom (Suc i) p xs)"

definition findIndex :: "('a \<Rightarrow> bool) \<Rightarrow> 'a list \<Rightarrow> nat option" where
  "findIndex p xs = findIndexFrom 0 p xs"

text \<open>\<^verbatim>\<open>parseInt\<close> on a string of decimal digits.\<close>

definition digitValue :: "char \<Rightarrow> nat" where
  "digitValue c = (case findIndex (\<lambda>d. d = c) ''0123456789'' of Some v \<Rightarrow> v | None \<Rightarrow> 0)"

definition parseInt :: "string \<Rightarrow> nat" where
  "parseInt s = foldl (\<lambda>acc c. 10 * acc + digitValue c) 0 s"

text \<open>\<^verbatim>\<open>array.some(p)\<close> stops at the first element that satisfies \<open>p\<close>.\<close>

fun arraySome :: "('a \<Rightarrow> bool) \<Rightarrow> 'a list \<Rightarrow> bool" where
  "arraySome p [] = False"
| "arraySome p (x # xs) = (if p x then True else arraySome p xs)"

fun firstSome :: "('a \<Rightarrow> 'b option) \<Rightarrow> 'a list \<Rightarrow> 'b option" where
  "firstSome f [] = None"
| "firstSome f (x # xs) = (case f x of Some y \<Rightarrow> Some y | None \<Rightarrow> firstSome f xs)"

section \<open>Calendar dates\<close>

text \<open>
  A \<^verbatim>\<open>Date\<close> is kept by its local calendar fields and the milliseconds since local
  midnight; \<open>getTime\<close> counts milliseconds from 1 January 1970 on the proleptic
  Gregorian calendar. The time zone of the host is a parameter: \<open>tz d\<close> is the offset from
  UTC, in milliseconds, that the host applies to the local time \<open>d\<close>; with daylight saving
  time it changes with \<open>d\<close>.
\<close>

record Date =
  getFullYear :: int
  getMonth :: nat
  getDate :: nat
  timeOfDay :: nat

definition isLeapYear :: "int \<Rightarrow> bool" where
  "isLeapYear y = (y mod 4 = 0 \<and> (y mod 100 \<noteq> 0 \<or> y mod 400 = 0))"

definition daysInMonth :: "int \<Rightarrow> nat \<Rightarrow> nat" where
  "daysInMonth y m =
     (if m = 1 then (if isLeapYear y then 29 else 28)
      else if m \<in> {3, 5, 8, 10} then 30 else 31)"

definition daysFromCivil :: "int \<Rightarrow> nat \<Rightarrow> nat \<Rightarrow> int" where
  "daysFromCivil y m d =
     (let y' = (if m \<le> 1 then y - 1 else y);
          era = y' div 400;
          yoe = y' - era * 400;
          mp = (int m + 10) mod 12;
          doy = (153 * mp + 2) div 5 + int d - 1;
          doe = yoe * 365 + yoe div 4 - yoe div 100 + doy
      in era * 146097 + doe - 719468)"

type_synonym zone = "Date \<Rightarrow> int"

definition getTime :: "zone \<Rightarrow> Date \<Rightarrow> int" where
  "getTime tz dt =
     daysFromCivil (getFullYear dt) (getMonth dt) (getDate dt) * 86400000 + int (timeOfDay dt)
     - tz dt"

text \<open>
  \<^verbatim>\<open>new Date(year, monthIndex, day)\<close> for a month index in 0..11 and a day in 1..31: a
  day past the end of the month rolls over into the next month.
\<close>

definition newDate :: "int \<Rightarrow> nat \<Rightarrow> nat \<Rightarrow> Date" where
  "newDate y m d =
     (if d \<le> daysInMonth y m
      then \<lparr>getFullYear = y, getMonth = m, getDate = d, timeOfDay = 0\<rparr>
      else if m = 11
      then \<lparr>getFullYear = y + 1, getMonth = 0, getDate = d - daysInMonth y m, timeOfDay = 0\<rparr>
      else \<lparr>getFullYear = y, getMonth = m + 1, getDate = d - daysInMonth y m, timeOfDay = 0\<rparr>)"

section \<open>The date parser\<close>

datatype DateFormat = MONTH_YEAR | YEAR_ONLY | FULL_DATE | PRESENT | CURRENT

record ParsedDate =
  pd_original :: string
  pd_normalized :: Date
  pd_format :: DateFormat
  pd_isOngoing :: bool
  pd_confidence :: rat

record ExtractedDate =
  ed_text :: string
  ed_startIndex :: nat
  ed_endIndex :: nat
  ed_parsedDate :: "ParsedDate option"
  ed_context :: string

definition ONGOING_KEYWORDS :: "string list" where
  "ONGOING_KEYWORDS =
     [''present'', ''current'', ''ongoing'', ''now'', ''today'', ''till date'', ''to date'',
      ''continuing'']"

definition monthNames :: "string list" where
  "monthNames =
     [''january'', ''february'', ''march'', ''april'', ''may'', ''june'',
      ''july'', ''august'', ''september'', ''october'', ''november'', ''december'']"

definition monthAbbreviations :: "string list" where
  "monthAbbreviations =
     [''jan'', ''feb'', ''mar'', ''apr'', ''may'', ''jun'',
      ''jul'', ''aug'', ''sep'', ''oct'', ''nov'', ''dec'']"

definition EXACT_MATCH :: rat where "EXACT_MATCH = 1"
definition PATTERN_MATCH :: rat where "PATTERN_MATCH = 8 / 10"

subsection \<open>The regular expressions\<close>

text \<open>
  Each pattern is a function that tries to match at one position: it gets the code unit
  before the position (\<open>None\<close> at the start of the text) and the text from the position
  on, and returns the length of the match with its capture groups. Letters of a pattern
  with the \<^verbatim>\<open>i\<close> flag are compared after \<open>toLowerChar\<close>.
\<close>

type_synonym matcher = "char option \<Rightarrow> string \<Rightarrow> (nat \<times> string list) option"

definition prevIsWord :: "char option \<Rightarrow> bool" where
  "prevIsWord p = (case p of None \<Rightarrow> False | Some c \<Rightarrow> isWordChar c)"

definition nextIsWord :: "string \<Rightarrow> bool" where
  "nextIsWord s = (case s of [] \<Rightarrow> False | c # _ \<Rightarrow> isWordChar c)"

fun startsWithCI :: "string \<Rightarrow> string \<Rightarrow> bool" where
  "startsWithCI s [] = True"
| "startsWithCI [] (k # ks) = False"
| "startsWithCI (c # cs) (k # ks) = (if toLowerChar c = k then startsWithCI cs ks else False)"

definition fourDigits :: "string \<Rightarrow> bool" where
  "fourDigits s = (length (take 4 s) = 4 \<and> list_all isDigit (take 4 s))"

text \<open>
  \<^verbatim>\<open>\b(Jan|Feb|...|Dec|January|...|December)\s+(\d{4})\b\<close>, flag \<^verbatim>\<open>i\<close>. The
  alternatives are tried in the order of the source, abbreviations first; an
  alternative counts only when the rest of the pattern matches behind it.
\<close>

definition monthYearAlt :: "string \<Rightarrow> string \<Rightarrow> (nat \<times> string list) option" where
  "monthYearAlt s alt =
     (if startsWithCI s alt
      then (let rest = drop (length alt) s;
                sp = takeWhile isSpace rest;
                r2 = dropWhile isSpace rest
            in if sp \<noteq> [] \<and> fourDigits r2 \<and> \<not> nextIsWord (drop 4 r2)
               then Some (length alt + length sp + 4, [take (length alt) s, take 4 r2])
               else None)
      else None)"

definition reMonthYear :: matcher where
  "reMonthYear prev s =
     (if prevIsWord prev then None
      else firstSome (monthYearAlt s) (monthAbbreviations @ monthNames))"

text \<open>\<^verbatim>\<open>\b(19|20)\d{2}\b\<close>\<close>

definition reYearOnly :: matcher where
  "reYearOnly prev s =
     (if prevIsWord prev then None
      else if (startsWith s ''19'' \<or> startsWith s ''20'') \<and> fourDigits s
              \<and> \<not> nextIsWord (drop 4 s)
      then Some (4, [take 2 s])
      else None)"

text \<open>
  \<^verbatim>\<open>\b(\d{1,2})\/(\d{1,2})\/(\d{4})\b\<close>. A group \<^verbatim>\<open>\d{1,2}\<close> takes two digits when
  it can; giving one back never helps, because a digit would then stand where the slash
  is expected.
\<close>

definition oneOrTwoDigits :: "string \<Rightarrow> nat" where
  "oneOrTwoDigits s = length (takeWhile isDigit (take 2 s))"

definition reFullDate :: matcher where
  "reFullDate prev s =
     (if prevIsWord prev then None
      else (let n1 = oneOrTwoDigits s
            in if 1 \<le> n1 \<and> startsWith (drop n1 s) ''/''
               then (let s1 = drop (n1 + 1) s; n2 = oneOrTwoDigits s1
                     in if 1 \<le> n2 \<and> startsWith (drop n2 s1) ''/''
                        then (let s2 = drop (n2 + 1) s1
                              in if fourDigits s2 \<and> \<not> nextIsWord (drop 4 s2)
                                 then Some (n1 + 1 + n2 + 1 + 4, [take n1 s, take n2 s1, take 4 s2])
                                 else None)
                        else None)
               else None))"

text \<open>\<^verbatim>\<open>\b(present|current|ongoing|now|today)\b\<close>, flag \<^verbatim>\<open>i\<close>\<close>

definition presentAlt :: "string \<Rightarrow> string \<Rightarrow> (nat \<times> string list) option" where
  "presentAlt s alt =
     (if startsWithCI s alt \<and> \<not> nextIsWord (drop (length alt) s)
      then Some (length alt, [take (length alt) s])
      else None)"

definition rePresentIndicators :: matcher where
  "rePresentIndicators prev s =
     (if prevIsWord prev then None
      else firstSome (presentAlt s) [''present'', ''current'', ''ongoing'', ''now'', ''today''])"

text \<open>\<^verbatim>\<open>(\d{4})\s*[-]\s*(\d{4}|present|current)\<close>, flag \<^verbatim>\<open>i\<close>, no word boundaries\<close>

definition rangeEnd :: "string \<Rightarrow> string option" where
  "rangeEnd s =
     (if fourDigits s then Some (take 4 s)
      else if startsWithCI s ''present'' then Some (take 7 s)
      else if startsWithCI s ''current'' then Some (take 7 s)
      else None)"

definition reDateRange :: matcher where
  "reDateRange prev s =
     (if fourDigits s
      then (let r1 = drop 4 s;
                sp1 = takeWhile isSpace r1;
                r2 = dropWhile isSpace r1;
                r3 = drop 1 r2;
                sp2 = takeWhile isSpace r3;
                r4 = dropWhile isSpace r3
            in if startsWith r2 ''-''
               then (case rangeEnd r4 of
                       Some e \<Rightarrow> Some (4 + length sp1 + 1 + length sp2 + length e, [take 4 s, e])
                     | None \<Rightarrow> None)
               else None)
      else None)"

text \<open>
  \<^verbatim>\<open>text.match(re)\<close> without the global flag: the leftmost match, with its index.
\<close>

fun firstMatchFrom :: "matcher \<Rightarrow> char option \<Rightarrow> nat \<Rightarrow> string
    \<Rightarrow> (nat \<times> nat \<times> string list) option" where
  "firstMatchFrom re prev pos [] = map_option (Pair pos) (re prev [])"
| "firstMatchFrom re prev pos (c # cs) =
     (case re prev (c # cs) of
        Some r \<Rightarrow> Some (pos, r)
      | None \<Rightarrow> firstMatchFrom re (Some c) (Suc pos) cs)"

definition firstMatch :: "matcher \<Rightarrow> string \<Rightarrow> (nat \<times> nat \<times> string list) option" where
  "firstMatch re s = firstMatchFrom re None 0 s"

text \<open>
  The loop \<^verbatim>\<open>while ((match = regex.exec(text)) !== null)\<close> on a fresh global regular
  expression: every match is non-empty, and the search goes on behind it. \<open>skip\<close>
  counts the code units of the last match that are still to be passed.
\<close>

fun execAllFrom :: "matcher \<Rightarrow> char option \<Rightarrow> nat \<Rightarrow> nat \<Rightarrow> string
    \<Rightarrow> (nat \<times> nat \<times> string list) list" where
  "execAllFrom re prev pos skip [] = []"
| "execAllFrom re prev pos skip (c # cs) =
     (if 0 < skip then execAllFrom re (Some c) (Suc pos) (skip - 1) cs
      else (case re prev (c # cs) of
              None \<Rightarrow> execAllFrom re (Some c) (Suc pos) 0 cs
            | Some (len, groups) \<Rightarrow>
                (pos, len, groups) # execAllFrom re (Some c) (Suc pos) (len - 1) cs))"

definition execAll :: "matcher \<Rightarrow> string \<Rightarrow> (nat \<times> nat \<times> string list) list" where
  "execAll re s = execAllFrom re None 0 0 s"


subsection \<open>Parsing one date string\<close>

text \<open>
  The clock is a parameter: \<open>now\<close> is the value of \<^verbatim>\<open>new Date()\<close>. The
  \<^verbatim>\<open>try\<close> blocks of \<^verbatim>\<open>parseDate\<close> guard calls that are total functions here, so
  their \<^verbatim>\<open>catch\<close> branches have no counterpart.
\<close>

definition isValidYear :: "Date \<Rightarrow> int \<Rightarrow> bool" where
  "isValidYear now y = (1950 \<le> y \<and> y \<le> getFullYear now + 10)"

definition isValidDate :: "Date \<Rightarrow> nat \<Rightarrow> nat \<Rightarrow> int \<Rightarrow> bool" where
  "isValidDate now m d y =
     (if m < 1 \<or> m > 12 then False
      else if d < 1 \<or> d > 31 then False
      else if \<not> isValidYear now y then False
      else (let date = newDate y (m - 1) d
            in getFullYear date = y \<and> getMonth date = m - 1 \<and> getDate date = d))"

definition isOngoingIndicator :: "string \<Rightarrow> bool" where
  "isOngoingIndicator s = arraySome (\<lambda>keyword. stringIncludes s (toLowerCase keyword)) ONGOING_KEYWORDS"

definition matchedText :: "string \<Rightarrow> nat \<Rightarrow> nat \<Rightarrow> string" where
  "matchedText s idx len = take len (drop idx s)"

definition parseMonthYear :: "Date \<Rightarrow> string \<Rightarrow> (Date \<times> DateFormat \<times> rat) option" where
  "parseMonthYear now s =
     (case firstMatch reMonthYear s of
        Some (idx, len, [m, y]) \<Rightarrow>
          (let monthStr = toLowerCase m;
               yr = int (parseInt y);
               monthIndex = (case findIndex (\<lambda>x. x = monthStr) monthAbbreviations of
                               Some i \<Rightarrow> Some i
                             | None \<Rightarrow> findIndex (\<lambda>x. x = monthStr) monthNames)
           in case monthIndex of
                Some i \<Rightarrow>
                  if isValidYear now yr then Some (newDate yr i 1, MONTH_YEAR, EXACT_MATCH)
                  else None
              | None \<Rightarrow> None)
      | _ \<Rightarrow> None)"

definition parseYearOnly :: "Date \<Rightarrow> string \<Rightarrow> (Date \<times> DateFormat \<times> rat) option" where
  "parseYearOnly now s =
     (case firstMatch reYearOnly s of
        Some (idx, len, groups) \<Rightarrow>
          (let yr = int (parseInt (matchedText s idx len))
           in if isValidYear now yr then Some (newDate yr 0 1, YEAR_ONLY, PATTERN_MATCH)
              else None)
      | None \<Rightarrow> None)"

definition parseFullDate :: "Date \<Rightarrow> string \<Rightarrow> (Date \<times> DateFormat \<times> rat) option" where
  "parseFullDate now s =
     (case firstMatch reFullDate s of
        Some (idx, len, [m, d, y]) \<Rightarrow>
          (let mo = parseInt m; dy = parseInt d; yr = int (parseInt y)
           in if isValidDate now mo dy yr then Some (newDate yr (mo - 1) dy, FULL_DATE, EXACT_MATCH)
              else None)
      | _ \<Rightarrow> None)"

definition parseDate :: "Date \<Rightarrow> string \<Rightarrow> ParsedDate option" where
  "parseDate now dateString =
     (if dateString = [] then None
      else if length (trim dateString) = 0 then None
      else (let trimmed = toLowerCase (trim dateString)
            in if isOngoingIndicator trimmed
               then Some \<lparr>pd_original = dateString, pd_normalized = now, pd_format = PRESENT,
                          pd_isOngoing = True, pd_confidence = EXACT_MATCH\<rparr>
               else (case firstSome (\<lambda>parser. parser now trimmed)
                            [parseMonthYear, parseYearOnly, parseFullDate] of
                       Some (date, fmt, conf) \<Rightarrow>
                         Some \<lparr>pd_original = dateString, pd_normalized = date, pd_format = fmt,
                               pd_isOngoing = False, pd_confidence = conf\<rparr>
                     | None \<Rightarrow> None)))"

subsection \<open>Extracting the dates of a text\<close>

datatype PatternType = Pmonth_year | Pfull_date | Pyear_only | Ppresent | Pdate_range

definition patternRegex :: "PatternType \<Rightarrow> matcher" where
  "patternRegex p =
     (case p of
        Pmonth_year \<Rightarrow> reMonthYear
      | Pfull_date \<Rightarrow> reFullDate
      | Pyear_only \<Rightarrow> reYearOnly
      | Ppresent \<Rightarrow> rePresentIndicators
      | Pdate_range \<Rightarrow> reDateRange)"

definition patterns :: "PatternType list" where
  "patterns = [Pmonth_year, Pfull_date, Pyear_only, Ppresent, Pdate_range]"

definition contextAround :: "string \<Rightarrow> nat \<Rightarrow> nat \<Rightarrow> string" where
  "contextAround s startIndex endIndex =
     substring s (max 0 (startIndex - 50)) (min (length s) (endIndex + 50))"

text \<open>
  \<^verbatim>\<open>extractDateRange\<close>: each side of a range is parsed on its own and pushed only when
  it parses. The end part always occurs in the match, so \<^verbatim>\<open>indexOf\<close> finds it.
\<close>

definition extractDateRange :: "Date \<Rightarrow> string \<Rightarrow> nat \<times> nat \<times> string list
    \<Rightarrow> ExtractedDate list \<Rightarrow> ExtractedDate list" where
  "extractDateRange now s m extractedDates =
     (case m of
        (startIndex, len, [startYear, endPart]) \<Rightarrow>
          (let fullMatch = matchedText s startIndex len;
               endIndex = startIndex + length fullMatch;
               context = contextAround s startIndex endIndex;
               dates1 =
                 (case parseDate now startYear of
                    Some startDate \<Rightarrow>
                      extractedDates @
                      [\<lparr>ed_text = startYear, ed_startIndex = startIndex,
                        ed_endIndex = startIndex + length startYear,
                        ed_parsedDate = Some startDate, ed_context = trim context\<rparr>]
                  | None \<Rightarrow> extractedDates)
           in case parseDate now endPart of
                Some endDate \<Rightarrow>
                  (let endStartIndex =
                         (case indexOf fullMatch endPart of
                            Some k \<Rightarrow> startIndex + k
                          | None \<Rightarrow> startIndex - 1)
                   in dates1 @
                      [\<lparr>ed_text = endPart, ed_startIndex = endStartIndex,
                        ed_endIndex = endStartIndex + length endPart,
                        ed_parsedDate = Some endDate, ed_context = trim context\<rparr>])
              | None \<Rightarrow> dates1)
      | _ \<Rightarrow> extractedDates)"

definition pushMatch :: "Date \<Rightarrow> string \<Rightarrow> PatternType \<Rightarrow> ExtractedDate list
    \<Rightarrow> nat \<times> nat \<times> string list \<Rightarrow> ExtractedDate list" where
  "pushMatch now s p extractedDates m =
     (if p = Pdate_range then extractDateRange now s m extractedDates
      else (case m of
              (startIndex, len, groups) \<Rightarrow>
                (let matchText = matchedText s startIndex len;
                     endIndex = startIndex + length matchText;
                     context = contextAround s startIndex endIndex
                 in extractedDates @
                    [\<lparr>ed_text = matchText, ed_startIndex = startIndex, ed_endIndex = endIndex,
                      ed_parsedDate = parseDate now matchText, ed_context = trim context\<rparr>])))"

text \<open>
  The loop over one pattern leaves after the match that makes \<^verbatim>\<open>matchCount\<close> exceed
  200, so it handles at most 201 matches.
\<close>

definition runPattern :: "Date \<Rightarrow> string \<Rightarrow> ExtractedDate list \<Rightarrow> PatternType
    \<Rightarrow> ExtractedDate list" where
  "runPattern now s extractedDates p =
     foldl (pushMatch now s p) extractedDates (take 201 (execAll (patternRegex p) s))"

text \<open>
  \<^verbatim>\<open>deduplicateAndSort\<close>: an entry stays when it is the first one with its start index
  and text; the sort of the source is stable and ascending in the start index.
\<close>

definition sameDate :: "ExtractedDate \<Rightarrow> ExtractedDate \<Rightarrow> bool" where
  "sameDate date d = (ed_startIndex d = ed_startIndex date \<and> ed_text d = ed_text date)"

definition deduplicateAndSort :: "ExtractedDate list \<Rightarrow> ExtractedDate list" where
  "deduplicateAndSort extractedDates =
     (let unique = map snd (filter (\<lambda>(index, date). findIndex (sameDate date) extractedDates = Some index)
                                   (enumerate 0 extractedDates))
      in sort_key ed_startIndex unique)"

definition extractDatesFromText :: "Date \<Rightarrow> string \<Rightarrow> ExtractedDate list" where
  "extractDatesFromText now s =
     (if s = [] then []
      else if length (trim s) = 0 then []
      else deduplicateAndSort (foldl (runPattern now s) [] patterns))"


section \<open>The validation service: data\<close>

datatype Severity = Critical | Warning | Suggestion

datatype Category = Education | Work | General

record ValidationIssue =
  vi_type :: Severity
  vi_category :: Category
  vi_message :: string
  vi_detectedDate :: string
  vi_suggestedFix :: "string option"
  vi_confidence :: rat

record ValidationWarning =
  vw_category :: Category
  vw_message :: string
  vw_context :: string

record DateSuggestion =
  ds_originalDate :: string
  ds_suggestedDate :: string
  ds_reason :: string
  ds_confidence :: rat

record EducationPeriod =
  ep_institution :: string
  ep_degree :: "string option"
  ep_startDate :: "Date option"
  ep_endDate :: "Date option"
  ep_isOngoing :: bool
  ep_originalText :: string
  ep_confidence :: rat

record WorkExperience =
  we_company :: string
  we_position :: string
  we_startDate :: "Date option"
  we_endDate :: "Date option"
  we_isOngoing :: bool
  we_originalText :: string
  we_confidence :: rat

text \<open>
  The two limits are whole numbers, as the data model of the specification has them;
  they are printed into messages.
\<close>

record ValidationConfig =
  maxFutureEducationYears :: int
  maxFutureWorkMonths :: int
  enableTypoDetection :: bool
  confidenceThreshold :: rat
  strictMode :: bool

record ValidationContext =
  ctx_currentDate :: Date
  ctx_educationPeriods :: "EducationPeriod list"
  ctx_workExperience :: "WorkExperience list"
  ctx_config :: ValidationConfig
  ctx_resumeText :: string

record DateValidationResult =
  isValid :: bool
  issues :: "ValidationIssue list"
  warnings :: "ValidationWarning list"
  suggestions :: "DateSuggestion list"

definition DEFAULT_VALIDATION_CONFIG :: ValidationConfig where
  "DEFAULT_VALIDATION_CONFIG =
     \<lparr>maxFutureEducationYears = 4, maxFutureWorkMonths = 3, enableTypoDetection = True,
      confidenceThreshold = 8 / 10, strictMode = False\<rparr>"

definition EDUCATION_KEYWORDS :: "string list" where
  "EDUCATION_KEYWORDS =
     [''university'', ''college'', ''school'', ''degree'', ''bachelor'', ''master'', ''phd'',
      ''doctorate'', ''diploma'', ''certificate'', ''graduation'', ''graduated'', ''education'',
      ''academic'', ''student'']"

section \<open>Education sections and periods\<close>

definition newline :: char where
  "newline = CHR 0x0A"

fun splitLines :: "string \<Rightarrow> string list" where
  "splitLines [] = [[]]"
| "splitLines (c # cs) =
     (if c = newline then [] # splitLines cs
      else (case splitLines cs of
              l # ls \<Rightarrow> (c # l) # ls
            | [] \<Rightarrow> [[c]]))"

fun joinLines :: "string list \<Rightarrow> string" where
  "joinLines [] = []"
| "joinLines [l] = l"
| "joinLines (l # ls) = l @ [newline] @ joinLines ls"

definition includesAny :: "string \<Rightarrow> string list \<Rightarrow> bool" where
  "includesAny line keywords = arraySome (\<lambda>keyword. stringIncludes line keyword) keywords"

definition isEducationSectionHeader :: "string \<Rightarrow> bool" where
  "isEducationSectionHeader line =
     includesAny line
       [''education'', ''academic background'', ''academic qualifications'',
        ''educational background'', ''qualifications'', ''degrees'']"

definition isNonEducationSectionHeader :: "string \<Rightarrow> bool" where
  "isNonEducationSectionHeader line =
     includesAny line
       [''experience'', ''work'', ''skills'', ''projects'', ''certifications'',
        ''achievements'', ''awards'', ''publications'', ''references'']"

definition containsEducationKeywords :: "string \<Rightarrow> bool" where
  "containsEducationKeywords line = includesAny line EDUCATION_KEYWORDS"

definition getContextLines :: "string list \<Rightarrow> nat \<Rightarrow> nat \<Rightarrow> string list" where
  "getContextLines lines index contextSize =
     (let start = max 0 (index - contextSize);
          end = min (length lines) (index + contextSize + 1)
      in take (end - start) (drop start lines))"

text \<open>
  The loop of \<^verbatim>\<open>extractEducationSections\<close>, one line at a time. Its state is the
  list of sections, the section being collected and the two flags.
\<close>

definition educationLineStep :: "string list
    \<Rightarrow> string list \<times> string \<times> bool \<times> bool \<Rightarrow> nat \<times> string
    \<Rightarrow> string list \<times> string \<times> bool \<times> bool" where
  "educationLineStep lines st il =
     (case (st, il) of
        ((sections, currentSection, inEducationSection, sectionStarted), (i, rawLine)) \<Rightarrow>
          (let line = trim rawLine; lowerLine = toLowerCase line
           in if isEducationSectionHeader lowerLine
              then ((if sectionStarted \<and> trim currentSection \<noteq> []
                     then sections @ [trim currentSection] else sections),
                    line @ [newline], True, True)
              else if isNonEducationSectionHeader lowerLine \<and> inEducationSection
              then ((if trim currentSection \<noteq> []
                     then sections @ [trim currentSection] else sections),
                    [], False, False)
              else if inEducationSection
              then (sections, currentSection @ line @ [newline], inEducationSection, sectionStarted)
              else if \<not> sectionStarted
              then (if containsEducationKeywords lowerLine
                    then (sections @ [joinLines (getContextLines lines i 2)],
                          currentSection, inEducationSection, sectionStarted)
                    else st)
              else st))"

definition extractEducationSections :: "string \<Rightarrow> string list" where
  "extractEducationSections s =
     (let lines = splitLines s
      in case foldl (educationLineStep lines) ([], [], False, False) (enumerate 0 lines) of
           (sections, currentSection, inEducationSection, sectionStarted) \<Rightarrow>
             if inEducationSection \<and> trim currentSection \<noteq> []
             then sections @ [trim currentSection] else sections)"

text \<open>\<^verbatim>\<open>/\d{4}|present|current/gi\<close>, the pattern of \<^verbatim>\<open>isDateLine\<close>\<close>

definition reDateToken :: matcher where
  "reDateToken prev s =
     (if fourDigits s then Some (4, [])
      else if startsWithCI s ''present'' then Some (7, [])
      else if startsWithCI s ''current'' then Some (7, [])
      else None)"

definition isDateLine :: "string \<Rightarrow> bool" where
  "isDateLine line = (firstMatch reDateToken line \<noteq> None \<and> length (trim line) < 50)"

definition isDegreeOnlyLine :: "string \<Rightarrow> bool" where
  "isDegreeOnlyLine line =
     (includesAny (toLowerCase line)
        [''bachelor'', ''master'', ''phd'', ''b.s.'', ''b.a.'', ''m.s.'', ''m.a.'']
      \<and> length (trim line) < 100)"

text \<open>
  A result \<^verbatim>\<open>x || null\<close> or \<^verbatim>\<open>x || undefined\<close> of a string is absent when the string
  is empty.
\<close>

definition orNull :: "string option \<Rightarrow> string option" where
  "orNull x = (case x of Some s \<Rightarrow> (if s = [] then None else Some s) | None \<Rightarrow> None)"

definition extractInstitution :: "string list \<Rightarrow> string option" where
  "extractInstitution lines =
     (case List.find (\<lambda>line. \<not> (isDateLine line \<or> isDegreeOnlyLine line)
                          \<and> includesAny (toLowerCase line)
                               [''university'', ''college'', ''school'', ''institute'']) lines of
        Some line \<Rightarrow> Some (trim line)
      | None \<Rightarrow>
          orNull (map_option trim
            (List.find (\<lambda>line. length (trim line) > 5 \<and> \<not> isDateLine line
                             \<and> \<not> isDegreeOnlyLine line) lines)))"

definition extractDegree :: "string list \<Rightarrow> string option" where
  "extractDegree lines =
     map_option trim
       (List.find (\<lambda>line. includesAny (toLowerCase line)
                     [''bachelor'', ''master'', ''phd'', ''doctorate'', ''diploma'', ''certificate'',
                      ''b.s.'', ''b.a.'', ''m.s.'', ''m.a.'', ''ph.d.'', ''mba'', ''degree'']) lines)"

text \<open>\<^verbatim>\<open>determineDateRange\<close>; the sort of the parsed dates is stable.\<close>

definition determineDateRange :: "zone \<Rightarrow> ExtractedDate list
    \<Rightarrow> Date option \<times> Date option \<times> bool" where
  "determineDateRange tz extractedDates =
     (if length extractedDates = 0 then (None, None, False)
      else (let isOngoing =
                  arraySome (\<lambda>date. case ed_parsedDate date of
                                     Some p \<Rightarrow> pd_isOngoing p | None \<Rightarrow> False) extractedDates;
                actualDates =
                  sort_key (\<lambda>p. getTime tz (pd_normalized p))
                    (concat (map (\<lambda>date. case ed_parsedDate date of
                                            Some p \<Rightarrow> (if pd_isOngoing p then [] else [p])
                                          | None \<Rightarrow> []) extractedDates))
            in case actualDates of
                 [] \<Rightarrow> (None, None, isOngoing)
               | [d] \<Rightarrow>
                   (if isOngoing then (Some (pd_normalized d), None, isOngoing)
                    else (None, Some (pd_normalized d), isOngoing))
               | d # ds \<Rightarrow>
                   (Some (pd_normalized d),
                    (if isOngoing then None else Some (pd_normalized (last (d # ds)))),
                    isOngoing)))"

text \<open>
  \<^verbatim>\<open>calculateEducationConfidence\<close> adds, multiplies and divides doubles. The three
  rounded operations are the fields of \<open>fl\<close>; nothing is assumed about them.
\<close>

record Float64 =
  fadd :: "rat \<Rightarrow> rat \<Rightarrow> rat"
  fmul :: "rat \<Rightarrow> rat \<Rightarrow> rat"
  fdiv :: "rat \<Rightarrow> rat \<Rightarrow> rat"

definition calculateEducationConfidence :: "Float64 \<Rightarrow> string option \<Rightarrow> string option
    \<Rightarrow> ExtractedDate list \<Rightarrow> rat" where
  "calculateEducationConfidence fl institution degree extractedDates =
     (let c0 = 5 / 10;
          c1 = (case orNull institution of
                  Some i \<Rightarrow>
                    (if stringIncludes (toLowerCase i) ''university''
                        \<or> stringIncludes (toLowerCase i) ''college''
                     then fadd fl (fadd fl c0 (2 / 10)) (1 / 10) else fadd fl c0 (2 / 10))
                | None \<Rightarrow> c0);
          c2 = (if orNull degree \<noteq> None then fadd fl c1 (2 / 10) else c1);
          avgDateConfidence =
            fdiv fl
              (foldl (\<lambda>sum date. fadd fl sum (case ed_parsedDate date of
                                                   Some p \<Rightarrow> pd_confidence p | None \<Rightarrow> 0))
                     0 extractedDates)
              (of_nat (length extractedDates))
      in min (fadd fl c2 (fmul fl avgDateConfidence (1 / 10))) 1)"

definition parseEducationSection :: "zone \<Rightarrow> Float64 \<Rightarrow> Date \<Rightarrow> string
    \<Rightarrow> EducationPeriod option" where
  "parseEducationSection tz fl now sectionText =
     (let extractedDates = extractDatesFromText now sectionText
      in if length extractedDates = 0 then None
         else (let lines = filter (\<lambda>line. line \<noteq> []) (map trim (splitLines sectionText));
                   institution = extractInstitution lines;
                   degree = extractDegree lines
               in case determineDateRange tz extractedDates of
                    (startDate, endDate, isOngoing) \<Rightarrow>
                      Some \<lparr>ep_institution =
                              (case orNull institution of
                                 Some i \<Rightarrow> i | None \<Rightarrow> ''Unknown Institution''),
                            ep_degree = orNull degree,
                            ep_startDate = startDate,
                            ep_endDate = endDate,
                            ep_isOngoing = isOngoing,
                            ep_originalText = sectionText,
                            ep_confidence =
                              calculateEducationConfidence fl institution degree extractedDates\<rparr>))"

definition parseEducationDates :: "zone \<Rightarrow> Float64 \<Rightarrow> Date \<Rightarrow> string
    \<Rightarrow> EducationPeriod list" where
  "parseEducationDates tz fl now s =
     (if s = [] then []
      else if length (trim s) = 0 then []
      else concat (map (\<lambda>section. case parseEducationSection tz fl now section of
                                      Some period \<Rightarrow> [period] | None \<Rightarrow> [])
                       (extractEducationSections s)))"


section \<open>The education timeline\<close>
















section \<open>Ranking the suggestions\<close>

text \<open>
  \<^verbatim>\<open>filterAndRankSuggestions\<close>: a suggestion stays when it is the first one with its
  original and suggested date, then when its confidence reaches the threshold; the sort
  is stable and descending in the confidence.
\<close>

definition sameSuggestion :: "DateSuggestion \<Rightarrow> DateSuggestion \<Rightarrow> bool" where
  "sameSuggestion suggestion s =
     (ds_originalDate s = ds_originalDate suggestion
      \<and> ds_suggestedDate s = ds_suggestedDate suggestion)"

definition uniqueSuggestions :: "DateSuggestion list \<Rightarrow> DateSuggestion list" where
  "uniqueSuggestions suggs =
     map snd (filter (\<lambda>(index, suggestion). findIndex (sameSuggestion suggestion) suggs = Some index)
                     (enumerate 0 suggs))"

definition filterAndRankSuggestions :: "DateSuggestion list \<Rightarrow> ValidationContext
    \<Rightarrow> DateSuggestion list" where
  "filterAndRankSuggestions suggs context =
     (let filteredSuggestions =
            filter (\<lambda>suggestion. ds_confidence suggestion \<ge> confidenceThreshold (ctx_config context))
                   (uniqueSuggestions suggs)
      in sort_key (\<lambda>suggestion. - ds_confidence suggestion) filteredSuggestions)"

text \<open>
  The three sources of candidate suggestions (the typo detector, the suggestions made
  for one issue, the timeline suggestions) are parameters of the model. Each may raise:
  \<open>None\<close> is an exception.
\<close>

record SuggestionSources =
  detectTypos :: "ValidationContext \<Rightarrow> DateSuggestion list option"
  generateContextAwareSuggestions :: "ValidationIssue \<Rightarrow> ValidationContext \<Rightarrow> DateSuggestion list option"
  generateTimelineSuggestions :: "ValidationContext \<Rightarrow> DateSuggestion list option"

definition generateSuggestions :: "SuggestionSources \<Rightarrow> ValidationContext \<Rightarrow> ValidationIssue list
    \<Rightarrow> DateSuggestion list option" where
  "generateSuggestions G context allIssues =
     do {
       typoSuggestions \<leftarrow> detectTypos G context;
       contextSuggestions \<leftarrow>
         those (map (\<lambda>issue. generateContextAwareSuggestions G issue context) allIssues);
       timelineSuggestions \<leftarrow> generateTimelineSuggestions G context;
       Some (filterAndRankSuggestions
               (typoSuggestions @ concat contextSuggestions @ timelineSuggestions) context)
     }"

section \<open>The orchestrator\<close>

text \<open>
  Exceptions are values: a computation of type \<open>'a option\<close> that is \<open>None\<close> has raised.
  The calls into the logger and into the date log of the configuration manager are
  named by their line in the source of the service, and a fault oracle \<open>F\<close> says which
  of them raise. The stages that the orchestrator runs (the two parsers, the two
  timeline validators, the rule engine and the three suggestion sources) are
  parameters, each free to raise.
\<close>

type_synonym faults = "nat \<Rightarrow> bool"

definition call :: "faults \<Rightarrow> nat \<Rightarrow> unit option" where
  "call F line = (if F line then None else Some ())"

fun calls :: "faults \<Rightarrow> nat list \<Rightarrow> unit option" where
  "calls F [] = Some ()"
| "calls F (line # lines) = (case call F line of Some u \<Rightarrow> calls F lines | None \<Rightarrow> None)"

definition tryCatch :: "'a option \<Rightarrow> 'a option \<Rightarrow> 'a option" where
  "tryCatch body handler = (case body of Some v \<Rightarrow> Some v | None \<Rightarrow> handler)"

record Stages =
  runParseEducationDates :: "string \<Rightarrow> EducationPeriod list option"
  runParseWorkExperience :: "string \<Rightarrow> WorkExperience list option"
  runValidateEducationTimeline :: "EducationPeriod list \<Rightarrow> ValidationIssue list option"
  runValidateWorkTimeline :: "WorkExperience list \<Rightarrow> ValidationIssue list option"
  runApplyValidationRules :: "ValidationContext \<Rightarrow> ValidationIssue list option"
  suggestionSources :: SuggestionSources

definition createEmptyValidationResult :: "string option \<Rightarrow> DateValidationResult" where
  "createEmptyValidationResult warningMessage =
     \<lparr>isValid = True, issues = [],
      warnings =
        (case orNull warningMessage of
           Some m \<Rightarrow> [\<lparr>vw_category = General, vw_message = m,
                       vw_context = ''System error during validation''\<rparr>]
         | None \<Rightarrow> []),
      suggestions = []\<rparr>"

definition categorizeIssuesBySeverity :: "ValidationConfig \<Rightarrow> ValidationIssue list
    \<Rightarrow> ValidationIssue list \<times> ValidationWarning list" where
  "categorizeIssuesBySeverity cfg allIssues =
     foldl (\<lambda>(filteredIssues, convertedWarnings) issue.
              if vi_confidence issue < confidenceThreshold cfg \<and> vi_type issue = Critical
              then (filteredIssues,
                    convertedWarnings @
                    [\<lparr>vw_category = vi_category issue, vw_message = vi_message issue,
                      vw_context = vi_detectedDate issue\<rparr>])
              else (filteredIssues @ [issue], convertedWarnings))
           ([], []) allIssues"

text \<open>
  A parsing stage: the stage and its two logging calls run in a \<^verbatim>\<open>try\<close>; the handler
  logs twice and goes on with the empty list.
\<close>

definition parsingStage :: "faults \<Rightarrow> 'a list option \<Rightarrow> nat list \<Rightarrow> nat list
    \<Rightarrow> 'a list option" where
  "parsingStage F stage okCalls errCalls =
     tryCatch (do { xs \<leftarrow> stage; calls F okCalls; Some xs })
              (do { calls F errCalls; Some [] })"

text \<open>
  A validation stage: what the stage returns is pushed before the logging calls of the
  \<^verbatim>\<open>try\<close> block run, so it stays when one of them raises; the handler logs twice and
  adds a warning.
\<close>

definition validationStage :: "faults \<Rightarrow> 'a list option \<Rightarrow> nat list \<Rightarrow> nat list
    \<Rightarrow> ValidationWarning \<Rightarrow> 'a list \<times> ValidationWarning list
    \<Rightarrow> ('a list \<times> ValidationWarning list) option" where
  "validationStage F stage okCalls errCalls w st =
     (case st of
        (acc, ws) \<Rightarrow>
          (case stage of
             None \<Rightarrow> do { calls F errCalls; Some (acc, ws @ [w]) }
           | Some xs \<Rightarrow>
               tryCatch (do { calls F okCalls; Some (acc @ xs, ws) })
                        (do { calls F errCalls; Some (acc @ xs, ws @ [w]) })))"

definition skippedWarning :: "Category \<Rightarrow> string \<Rightarrow> string \<Rightarrow> ValidationWarning" where
  "skippedWarning c m ctx = \<lparr>vw_category = c, vw_message = m, vw_context = ctx\<rparr>"

text \<open>Lines 314 to 340: the reclassification and the verdict.\<close>

definition assembleResult :: "ValidationConfig \<Rightarrow> ValidationIssue list \<Rightarrow> ValidationWarning list
    \<Rightarrow> DateSuggestion list \<Rightarrow> DateValidationResult" where
  "assembleResult cfg allIssues ws suggs =
     (case categorizeIssuesBySeverity cfg allIssues of
        (filteredIssues, convertedWarnings) \<Rightarrow>
          (let criticalIssues = filter (\<lambda>issue. vi_type issue = Critical) filteredIssues
           in \<lparr>isValid = (length criticalIssues = 0), issues = filteredIssues,
               warnings = ws @ convertedWarnings, suggestions = suggs\<rparr>))"

text \<open>
  The three validation stages, lines 207 to 280; the result is \<^verbatim>\<open>allIssues\<close> with the
  warnings so far.
\<close>

definition runValidators :: "faults \<Rightarrow> Stages \<Rightarrow> ValidationContext
    \<Rightarrow> (ValidationIssue list \<times> ValidationWarning list) option" where
  "runValidators F S context =
     do {
       call F 207;
       st1 \<leftarrow> validationStage F (runValidateEducationTimeline S (ctx_educationPeriods context))
                [211, 215] [221, 222]
                (skippedWarning Education
                   ''Education timeline validation encountered an error and was skipped''
                   ''System error during validation'')
                ([], []);
       call F 233;
       st2 \<leftarrow> validationStage F (runValidateWorkTimeline S (ctx_workExperience context))
                [237, 241] [247, 248]
                (skippedWarning Work
                   ''Work timeline validation encountered an error and was skipped''
                   ''System error during validation'')
                st1;
       call F 259;
       validationStage F (runApplyValidationRules S context)
         [263, 267] [272, 273]
         (skippedWarning General
            ''Advanced validation rules encountered an error and were skipped''
            ''System error during rule application'')
         st2
     }"

text \<open>Lines 283 to 312: the suggestions, when typo detection is enabled.\<close>

definition runSuggestions :: "faults \<Rightarrow> Stages \<Rightarrow> ValidationContext \<Rightarrow> ValidationIssue list
    \<Rightarrow> ValidationWarning list \<Rightarrow> (DateSuggestion list \<times> ValidationWarning list) option" where
  "runSuggestions F S context allIssues ws =
     do {
       call F 283;
       (if enableTypoDetection (ctx_config context)
        then validationStage F (generateSuggestions (suggestionSources S) context allIssues)
               [288, 292] [303, 304]
               (skippedWarning General
                  ''Suggestion generation encountered an error and was skipped''
                  ''System error during suggestion generation'')
               ([], ws)
        else validationStage F (Some [])
               [297, 298] [303, 304]
               (skippedWarning General
                  ''Suggestion generation encountered an error and was skipped''
                  ''System error during suggestion generation'')
               ([], ws))
     }"

text \<open>
  The body of the outer \<^verbatim>\<open>try\<close> block of \<^verbatim>\<open>validateResumeDates\<close>, lines 98 to 368:
  first the steps on a text that is not blank. The context is built from total
  functions, and \<^verbatim>\<open>logAllExtractedDates\<close> and \<^verbatim>\<open>logEdgeCasesFromResults\<close> catch
  what their own bodies raise; the latter logs once more in its handler (line 1764).
\<close>

definition validationSteps :: "faults \<Rightarrow> Stages \<Rightarrow> ValidationConfig \<Rightarrow> Date \<Rightarrow> string
    \<Rightarrow> DateValidationResult option" where
  "validationSteps F S cfg now resumeText =
     do {
       call F 114;
       call F 123;
       educationPeriods \<leftarrow> parsingStage F (runParseEducationDates S resumeText) [126, 130] [140, 141];
       call F 148;
       workExperience \<leftarrow> parsingStage F (runParseWorkExperience S resumeText) [151, 155] [166, 167];
       tryCatch (call F 176) (call F 182);
       (let context = \<lparr>ctx_currentDate = now, ctx_educationPeriods = educationPeriods,
                        ctx_workExperience = workExperience, ctx_config = cfg,
                        ctx_resumeText = resumeText\<rparr>
        in do {
          (allIssues, ws1) \<leftarrow> runValidators F S context;
          (suggs, ws2) \<leftarrow> runSuggestions F S context allIssues ws1;
          (let result = assembleResult cfg allIssues ws2 suggs
           in do {
             call F 342;
             call F 353;
             call F 356;
             tryCatch (call F 1729) (call F 1764);
             Some result
           })
        })
     }"

definition validationBody :: "faults \<Rightarrow> Stages \<Rightarrow> ValidationConfig \<Rightarrow> Date \<Rightarrow> string
    \<Rightarrow> DateValidationResult option" where
  "validationBody F S cfg now resumeText =
     (if resumeText = []
      then do { call F 100;
                Some (createEmptyValidationResult (Some ''Invalid resume text provided'')) }
      else if length (trim resumeText) = 0
      then do { call F 108;
                Some (createEmptyValidationResult (Some ''Empty resume text provided'')) }
      else validationSteps F S cfg now resumeText)"

text \<open>
  \<^verbatim>\<open>validateResumeDates\<close>: two logging calls stand before the \<^verbatim>\<open>try\<close>; the handler
  logs four times and returns the empty result.
\<close>

definition validateResumeDates :: "faults \<Rightarrow> Stages \<Rightarrow> ValidationConfig \<Rightarrow> Date \<Rightarrow> string
    \<Rightarrow> DateValidationResult option" where
  "validateResumeDates F S cfg now resumeText =
     do {
       call F 91;
       call F 95;
       tryCatch (validationBody F S cfg now resumeText)
                (do { calls F [371, 373, 378, 381];
                      Some (createEmptyValidationResult
                              (Some ''Date validation temporarily unavailable due to an internal error'')) })
     }"


section \<open>Notions used by the statements\<close>

text \<open>
  The logging calls of \<^verbatim>\<open>validateResumeDates\<close> that no \<^verbatim>\<open>try\<close> block of the function
  protects: the two before the block and the four of its handler.
\<close>

definition outsideTry :: "nat list" where
  "outsideTry = [91, 95, 371, 373, 378, 381]"

text \<open>
  What the validators produce in a run without faults: a stage that raises contributes
  nothing, and the context holds what the two parsers returned.
\<close>

definition orEmpty :: "'a list option \<Rightarrow> 'a list" where
  "orEmpty r = (case r of Some xs \<Rightarrow> xs | None \<Rightarrow> [])"

definition contextOf :: "Stages \<Rightarrow> ValidationConfig \<Rightarrow> Date \<Rightarrow> string \<Rightarrow> ValidationContext" where
  "contextOf S cfg now resumeText =
     \<lparr>ctx_currentDate = now,
      ctx_educationPeriods = orEmpty (runParseEducationDates S resumeText),
      ctx_workExperience = orEmpty (runParseWorkExperience S resumeText),
      ctx_config = cfg, ctx_resumeText = resumeText\<rparr>"

definition producedIssues :: "Stages \<Rightarrow> ValidationConfig \<Rightarrow> Date \<Rightarrow> string
    \<Rightarrow> ValidationIssue list" where
  "producedIssues S cfg now resumeText =
     (let context = contextOf S cfg now resumeText
      in orEmpty (runValidateEducationTimeline S (ctx_educationPeriods context))
         @ orEmpty (runValidateWorkTimeline S (ctx_workExperience context))
         @ orEmpty (runApplyValidationRules S context))"

definition convertedWarning :: "ValidationIssue \<Rightarrow> ValidationWarning" where
  "convertedWarning issue =
     \<lparr>vw_category = vi_category issue, vw_message = vi_message issue,
      vw_context = vi_detectedDate issue\<rparr>"


definition dateKey :: "ExtractedDate \<Rightarrow> nat \<times> string" where
  "dateKey d = (ed_startIndex d, ed_text d)"



text \<open>
  What the suggestions of a result are: nothing, or the output of the ranking for the
  configuration of the run.
\<close>

definition ranked :: "ValidationConfig \<Rightarrow> DateSuggestion list \<Rightarrow> bool" where
  "ranked cfg sg =
     (sg = [] \<or> (\<exists>cands context. ctx_config context = cfg
                      \<and> sg = filterAndRankSuggestions cands context))"

section \<open>Scenarios\<close>


definition scenario4 :: string where
  "scenario4 = ''2025/13/45 - 2026/99/99''"






definition demoNow :: Date where
  "demoNow = \<lparr>getFullYear = 2026, getMonth = 10, getDate = 2, timeOfDay = 0\<rparr>"

definition demoLater :: Date where
  "demoLater = \<lparr>getFullYear = 2026, getMonth = 11, getDate = 31, timeOfDay = 0\<rparr>"

definition lateNow :: Date where
  "lateNow = \<lparr>getFullYear = 2095, getMonth = 0, getDate = 1, timeOfDay = 0\<rparr>"

definition noFaults :: faults where
  "noFaults line = False"

definition faultAt :: "nat \<Rightarrow> faults" where
  "faultAt l line = (line = l)"


definition demoFutureIssue :: ValidationIssue where
  "demoFutureIssue =
     \<lparr>vi_type = Critical, vi_category = General,
      vi_message = ''Date 2040 is too far in the future to be realistic.'',
      vi_detectedDate = ''Multiple dates'',
      vi_suggestedFix = Some ''This might be a typo. Consider if it should be 2030.'',
      vi_confidence = 7 / 10\<rparr>"

definition demoOrderIssue :: ValidationIssue where
  "demoOrderIssue =
     \<lparr>vi_type = Critical, vi_category = Work,
      vi_message = ''Work start date is after or same as end date.'',
      vi_detectedDate = ''2022 - 2020'',
      vi_suggestedFix = Some ''Please check and correct the date order.'',
      vi_confidence = 95 / 100\<rparr>"

definition demoSuggestions :: "DateSuggestion list" where
  "demoSuggestions =
     [\<lparr>ds_originalDate = ''2040'', ds_suggestedDate = ''2030'', ds_reason = ''decade'',
       ds_confidence = 8 / 10\<rparr>,
      \<lparr>ds_originalDate = ''2040'', ds_suggestedDate = ''2026'', ds_reason = ''current year'',
       ds_confidence = 6 / 10\<rparr>,
      \<lparr>ds_originalDate = ''2040'', ds_suggestedDate = ''2030'', ds_reason = ''again'',
       ds_confidence = 9 / 10\<rparr>,
      \<lparr>ds_originalDate = ''2022 - 2020'', ds_suggestedDate = ''2020 - 2022'', ds_reason = ''swap'',
       ds_confidence = 9 / 10\<rparr>]"

definition demoSources :: SuggestionSources where
  "demoSources =
     \<lparr>detectTypos = (\<lambda>context. Some demoSuggestions),
      generateContextAwareSuggestions = (\<lambda>issue context. Some []),
      generateTimelineSuggestions = (\<lambda>context. Some [])\<rparr>"

definition demoStages :: Stages where
  "demoStages =
     \<lparr>runParseEducationDates = (\<lambda>s. Some []),
      runParseWorkExperience = (\<lambda>s. Some []),
      runValidateEducationTimeline = (\<lambda>periods. Some []),
      runValidateWorkTimeline = (\<lambda>experiences. Some [demoOrderIssue]),
      runApplyValidationRules = (\<lambda>context. Some [demoFutureIssue]),
      suggestionSources = demoSources\<rparr>"

definition demoResult :: DateValidationResult where
  "demoResult =
     \<lparr>isValid = False, issues = [demoOrderIssue],
      warnings = [\<lparr>vw_category = General,
                   vw_message = ''Date 2040 is too far in the future to be realistic.'',
                   vw_context = ''Multiple dates''\<rparr>],
      suggestions =
        [\<lparr>ds_originalDate = ''2022 - 2020'', ds_suggestedDate = ''2020 - 2022'', ds_reason = ''swap'',
          ds_confidence = 9 / 10\<rparr>,
         \<lparr>ds_originalDate = ''2040'', ds_suggestedDate = ''2030'', ds_reason = ''decade'',
          ds_confidence = 8 / 10\<rparr>]\<rparr>"

section \<open>Evaluating the text primitives\<close>

text \<open>
  The character classes as functions of the eight bits of a character, and the equations
  that evaluate the parser on a concrete text.
\<close>

lemma isDigit_Char: "isDigit (Char b0 b1 b2 b3 b4 b5 b6 b7) \<longleftrightarrow> (\<not> b7 \<and> (\<not> b6 \<and> (b5 \<and> (b4 \<and> (\<not> b3 \<or> (\<not> b2 \<and> \<not> b1))))))"
  by (cases b0; cases b1; cases b2; cases b3; cases b4; cases b5; cases b6; cases b7; simp add: isDigit_def)

lemma isSpace_Char: "isSpace (Char b0 b1 b2 b3 b4 b5 b6 b7) \<longleftrightarrow> 
   (if b7 then (\<not> b6 \<and> (b5 \<and> (\<not> b4 \<and> (\<not> b3 \<and> (\<not> b2 \<and> (\<not> b1 \<and> \<not> b0)))))) else (\<not> b6 \<and> (if b5 then (\<not> b4 \<and> (\<not> b3 \<and> (\<not> b2 \<and> (\<not> b1 \<and> \<not> b0)))) else (\<not> b4 \<and> (b3 \<and> (if b2 then \<not> b1 else (b1 \<or> b0)))))))"
  by (cases b0; cases b1; cases b2; cases b3; cases b4; cases b5; cases b6; cases b7; simp add: isSpace_def)

lemma isWordChar_Char: "isWordChar (Char b0 b1 b2 b3 b4 b5 b6 b7) \<longleftrightarrow> 
  (\<not> b7 \<and> (if b6 then (if b5 then (if b4 then (\<not> b3 \<or> (\<not> b2 \<and> (\<not> b1 \<or> \<not> b0))) else (b3 \<or> (b2 \<or> (b1 \<or> b0)))) else (if b4 then (\<not> b3 \<or> (if b2 then (b1 \<and> b0) else (\<not> b1 \<or> \<not> b0))) else (b3 \<or> (b2 \<or> (b1 \<or> b0))))) else (b5 \<and> (b4 \<and> (\<not> b3 \<or> (\<not> b2 \<and> \<not> b1))))))"
  by (cases b0; cases b1; cases b2; cases b3; cases b4; cases b5; cases b6; cases b7; simp add: isWordChar_def)

lemma toLowerChar_Char: "toLowerChar (Char b0 b1 b2 b3 b4 b5 b6 b7) =
  (if (if b7 then (b6 \<and> (\<not> b5 \<and> (\<not> b4 \<or> (if b3 then (\<not> b2 \<or> (\<not> b1 \<or> \<not> b0)) else (\<not> b2 \<or> (\<not> b1 \<or> \<not> b0)))))) else (b6 \<and> (\<not> b5 \<and> (if b4 then (\<not> b3 \<or> (\<not> b2 \<and> (\<not> b1 \<or> \<not> b0))) else (b3 \<or> (b2 \<or> (b1 \<or> b0)))))))
   then Char b0 b1 b2 b3 b4 True b6 b7 else Char b0 b1 b2 b3 b4 b5 b6 b7)"
  by (cases b0; cases b1; cases b2; cases b3; cases b4; cases b5; cases b6; cases b7; simp add: toLowerChar_def upperCaseLetters_def)

lemmas char_eval = isDigit_Char isSpace_Char isWordChar_Char toLowerChar_Char

lemmas regex_defs = reMonthYear_def monthYearAlt_def reYearOnly_def reFullDate_def oneOrTwoDigits_def
  rePresentIndicators_def presentAlt_def reDateRange_def rangeEnd_def reDateToken_def
  prevIsWord_def nextIsWord_def fourDigits_def monthNames_def monthAbbreviations_def
  execAll_def firstMatch_def patternRegex_def

lemmas parser_defs = isValidYear_def isValidDate_def isOngoingIndicator_def ONGOING_KEYWORDS_def
  matchedText_def parseMonthYear_def parseYearOnly_def parseFullDate_def parseDate_def
  toLowerCase_def trim_def parseInt_def digitValue_def findIndex_def EXACT_MATCH_def PATTERN_MATCH_def
  newDate_def daysInMonth_def isLeapYear_def substring_def indexOf_def

lemmas extract_defs = patterns_def contextAround_def extractDateRange_def pushMatch_def runPattern_def
  sameDate_def deduplicateAndSort_def extractDatesFromText_def

lemmas section_defs = newline_def includesAny_def isEducationSectionHeader_def isNonEducationSectionHeader_def
  containsEducationKeywords_def EDUCATION_KEYWORDS_def getContextLines_def educationLineStep_def extractEducationSections_def
  isDateLine_def isDegreeOnlyLine_def orNull_def extractInstitution_def extractDegree_def determineDateRange_def
  calculateEducationConfidence_def parseEducationSection_def parseEducationDates_def getTime_def daysFromCivil_def


lemma numeral_minus_one_nat: "numeral v - (1::nat) = pred_numeral v"
  by simp













section \<open>The result of a validation run\<close>

lemma call_noFaults [simp]: "call noFaults line = Some ()"
  by (simp add: call_def noFaults_def)

lemma calls_noFaults [simp]: "calls noFaults lines = Some ()"
  by (induction lines) simp_all

lemma calls_ok: "\<forall>line \<in> set lines. \<not> F line \<Longrightarrow> calls F lines = Some ()"
  by (induction lines) (simp_all add: call_def)

lemma createEmpty_shape:
  "m \<noteq> [] \<Longrightarrow> createEmptyValidationResult (Some m) =
     \<lparr>isValid = True, issues = [],
      warnings = [\<lparr>vw_category = General, vw_message = m,
                   vw_context = ''System error during validation''\<rparr>],
      suggestions = []\<rparr>"
  by (simp add: createEmptyValidationResult_def orNull_def)

lemma isValid_createEmpty: "isValid (createEmptyValidationResult m) \<and> issues (createEmptyValidationResult m) = [] \<and> suggestions (createEmptyValidationResult m) = []"
  by (simp add: createEmptyValidationResult_def)

lemma categorize_foldl:
  "foldl (\<lambda>(filteredIssues, convertedWarnings) issue.
              if vi_confidence issue < confidenceThreshold cfg \<and> vi_type issue = Critical
              then (filteredIssues,
                    convertedWarnings @
                    [\<lparr>vw_category = vi_category issue, vw_message = vi_message issue,
                      vw_context = vi_detectedDate issue\<rparr>])
              else (filteredIssues @ [issue], convertedWarnings))
           (fs, cs) xs =
   (fs @ filter (\<lambda>i. \<not> (vi_confidence i < confidenceThreshold cfg \<and> vi_type i = Critical)) xs,
    cs @ map convertedWarning (filter (\<lambda>i. vi_confidence i < confidenceThreshold cfg \<and> vi_type i = Critical) xs))"
  by (induction xs arbitrary: fs cs) (simp_all add: convertedWarning_def)

lemma categorize_eq:
  "categorizeIssuesBySeverity cfg xs =
   (filter (\<lambda>i. \<not> (vi_confidence i < confidenceThreshold cfg \<and> vi_type i = Critical)) xs,
    map convertedWarning (filter (\<lambda>i. vi_confidence i < confidenceThreshold cfg \<and> vi_type i = Critical) xs))"
  unfolding categorizeIssuesBySeverity_def using categorize_foldl[of cfg "[]" "[]" xs] by simp

lemma assemble_fields:
  "issues (assembleResult cfg ai ws sg) = filter (\<lambda>i. \<not> (vi_confidence i < confidenceThreshold cfg \<and> vi_type i = Critical)) ai"
  "warnings (assembleResult cfg ai ws sg) = ws @ map convertedWarning (filter (\<lambda>i. vi_confidence i < confidenceThreshold cfg \<and> vi_type i = Critical) ai)"
  "suggestions (assembleResult cfg ai ws sg) = sg"
  "isValid (assembleResult cfg ai ws sg) \<longleftrightarrow> (\<forall>i \<in> set (issues (assembleResult cfg ai ws sg)). vi_type i \<noteq> Critical)"
  by (simp_all add: assembleResult_def categorize_eq filter_empty_conv)

lemma validationStage_acc:
  "validationStage F stage ok err w (acc, ws) = Some (acc', ws') \<Longrightarrow> acc' = acc @ orEmpty stage"
  by (auto simp: validationStage_def orEmpty_def tryCatch_def bind_eq_Some_conv split: option.splits)

lemma generateSuggestions_ranked:
  "generateSuggestions G context ai = Some sg \<Longrightarrow> \<exists>cands. sg = filterAndRankSuggestions cands context"
  by (auto simp: generateSuggestions_def bind_eq_Some_conv)

lemma runSuggestions_ranked:
  assumes "runSuggestions F S context ai ws = Some (sg, ws')"
  shows "ranked (ctx_config context) sg"
proof -
  from assms obtain stage ok where
    st: "validationStage F stage ok [303, 304]
           (skippedWarning General
              ''Suggestion generation encountered an error and was skipped''
              ''System error during suggestion generation'') ([], ws) = Some (sg, ws')"
    and stage: "stage = generateSuggestions (suggestionSources S) context ai \<or> stage = Some []"
    by (auto simp: runSuggestions_def bind_eq_Some_conv split: if_splits)
  from validationStage_acc[OF st] have sg: "sg = orEmpty stage" by simp
  show ?thesis
  proof (cases stage)
    case None
    with sg show ?thesis by (simp add: ranked_def orEmpty_def)
  next
    case (Some xs)
    with sg have x: "sg = xs" by (simp add: orEmpty_def)
    from stage show ?thesis
    proof
      assume "stage = generateSuggestions (suggestionSources S) context ai"
      with Some have "generateSuggestions (suggestionSources S) context ai = Some xs" by simp
      from generateSuggestions_ranked[OF this] x show ?thesis
        unfolding ranked_def by blast
    next
      assume "stage = Some []"
      with Some x show ?thesis by (simp add: ranked_def)
    qed
  qed
qed

lemma validationSteps_cases:
  assumes "validationSteps F S cfg now t = Some r"
  shows "\<exists>ai ws sg. r = assembleResult cfg ai ws sg \<and> ranked cfg sg"
  using assms unfolding validationSteps_def Let_def
  by (clarsimp simp: bind_eq_Some_conv split: prod.splits dest!: runSuggestions_ranked) blast

lemma validationBody_cases:
  assumes "validationBody F S cfg now t = Some r"
  shows "(\<exists>m. r = createEmptyValidationResult m)
       \<or> (\<exists>ai ws sg. r = assembleResult cfg ai ws sg \<and> ranked cfg sg)"
  using assms validationSteps_cases[of F S cfg now t r]
  by (auto simp: validationBody_def bind_eq_Some_conv split: if_splits)

lemma validateResumeDates_cases:
  assumes "validateResumeDates F S cfg now t = Some r"
  shows "(\<exists>m. r = createEmptyValidationResult m)
       \<or> (\<exists>ai ws sg. r = assembleResult cfg ai ws sg \<and> ranked cfg sg)"
  using assms validationBody_cases[of F S cfg now t r]
  by (auto simp: validateResumeDates_def bind_eq_Some_conv tryCatch_def split: option.splits)

text \<open>
  Claim C1. Whatever the text, the clock, the configuration, the stages and the faults of the
  logging calls are: when \<^verbatim>\<open>validateResumeDates\<close> returns a result, its \<open>isValid\<close> flag
  is true exactly when no element of its \<open>issues\<close> list has type \<open>Critical\<close>.
\<close>

theorem isValid_iff_no_critical: "validateResumeDates F S cfg now t = Some r \<Longrightarrow> isValid r \<longleftrightarrow> (\<forall>i \<in> set (issues r). vi_type i \<noteq> Critical)"
  using validateResumeDates_cases[of F S cfg now t r] isValid_createEmpty assemble_fields(4)
  by (metis empty_iff list.set(1))

lemma parsingStage_noFaults: "parsingStage noFaults stage ok err = Some (orEmpty stage)"
  by (cases stage) (simp_all add: parsingStage_def tryCatch_def orEmpty_def)

lemma validationStage_noFaults:
  "validationStage noFaults stage ok err w (acc, ws) =
     Some (acc @ orEmpty stage, ws @ (if stage = None then [w] else []))"
  by (cases stage) (simp_all add: validationStage_def tryCatch_def orEmpty_def)

lemma runValidators_noFaults:
  "\<exists>ws. runValidators noFaults S (contextOf S cfg now t) = Some (producedIssues S cfg now t, ws)"
  by (simp add: runValidators_def validationStage_noFaults producedIssues_def Let_def)

lemma runSuggestions_noFaults:
  "\<exists>sg ws'. runSuggestions noFaults S context ai ws = Some (sg, ws')"
  by (simp add: runSuggestions_def validationStage_noFaults)

lemma run_noFaults:
  assumes "length (trim t) \<noteq> 0"
  shows "\<exists>ws sg. validateResumeDates noFaults S cfg now t
           = Some (assembleResult cfg (producedIssues S cfg now t) ws sg)"
proof -
  from assms have ne: "t \<noteq> []" by (auto simp: trim_def)
  obtain ws1 where v: "runValidators noFaults S (contextOf S cfg now t) = Some (producedIssues S cfg now t, ws1)"
    using runValidators_noFaults by blast
  obtain sg ws2 where s: "runSuggestions noFaults S (contextOf S cfg now t) (producedIssues S cfg now t) ws1 = Some (sg, ws2)"
    using runSuggestions_noFaults by blast
  have "validationSteps noFaults S cfg now t = Some (assembleResult cfg (producedIssues S cfg now t) ws2 sg)"
    using v s
    by (simp add: validationSteps_def parsingStage_noFaults tryCatch_def contextOf_def[symmetric])
  then have "validationBody noFaults S cfg now t = Some (assembleResult cfg (producedIssues S cfg now t) ws2 sg)"
    using assms ne by (simp add: validationBody_def)
  then show ?thesis
    by (auto simp: validateResumeDates_def tryCatch_def)
qed




text \<open>
  Claim C3. In a run on a non-blank text in which no logging call fails, every issue that the
  validators produced with type \<open>Critical\<close> and a confidence strictly below the threshold of
  the configuration is absent from the issues of the result; the warnings of the result hold
  an entry with the category and the message of the issue (and its detected date as context;
  the suggested fix has no field there); and \<open>isValid\<close> is decided by the other critical
  issues alone, those at or above the threshold.
\<close>

theorem low_confidence_critical_reclassified:
  assumes "length (trim t) \<noteq> 0"
      and "i \<in> set (producedIssues S cfg now t)"
      and "vi_type i = Critical"
      and "vi_confidence i < confidenceThreshold cfg"
  shows "\<exists>r. validateResumeDates noFaults S cfg now t = Some r
           \<and> i \<notin> set (issues r)
           \<and> \<lparr>vw_category = vi_category i, vw_message = vi_message i,
               vw_context = vi_detectedDate i\<rparr> \<in> set (warnings r)
           \<and> (isValid r \<longleftrightarrow>
                (\<forall>j \<in> set (producedIssues S cfg now t).
                   vi_type j = Critical \<longrightarrow> vi_confidence j < confidenceThreshold cfg))"
proof -
  from run_noFaults[OF assms(1)] obtain ws sg where
    r: "validateResumeDates noFaults S cfg now t = Some (assembleResult cfg (producedIssues S cfg now t) ws sg)"
    by blast
  let ?r = "assembleResult cfg (producedIssues S cfg now t) ws sg"
  have 1: "i \<notin> set (issues ?r)" using assms by (simp add: assemble_fields)
  have "convertedWarning i \<in> set (warnings ?r)" using assms by (auto simp: assemble_fields)
  then have 2: "\<lparr>vw_category = vi_category i, vw_message = vi_message i,
               vw_context = vi_detectedDate i\<rparr> \<in> set (warnings ?r)"
    by (simp add: convertedWarning_def)
  have 3: "isValid ?r \<longleftrightarrow> (\<forall>j \<in> set (producedIssues S cfg now t).
                   vi_type j = Critical \<longrightarrow> vi_confidence j < confidenceThreshold cfg)"
    by (auto simp: assemble_fields)
  from r 1 2 3 show ?thesis by blast
qed

lemma handled:
  assumes "\<forall>line \<in> set outsideTry. \<not> F line"
  shows "validateResumeDates F S cfg now t =
     (case validationBody F S cfg now t of
        Some r \<Rightarrow> Some r
      | None \<Rightarrow> Some (createEmptyValidationResult
                       (Some ''Date validation temporarily unavailable due to an internal error'')))"
proof -
  from assms have pre: "call F 91 = Some ()" "call F 95 = Some ()"
    and h: "calls F [371, 373, 378, 381] = Some ()"
    by (simp_all add: outsideTry_def call_def)
  show ?thesis
    by (simp add: validateResumeDates_def pre h tryCatch_def del: calls.simps)
qed

lemma blank_body:
  assumes "length (trim t) = 0"
  shows "validationBody F S cfg now t = None
       \<or> (\<exists>m. m \<noteq> [] \<and> validationBody F S cfg now t = Some (createEmptyValidationResult (Some m)))"
  using assms by (auto simp: validationBody_def call_def)




text \<open>
  Claim C4. For a text that is empty after trimming (the empty string, or white space only),
  \<^verbatim>\<open>validateResumeDates\<close> returns the record with \<open>isValid = True\<close>, no issues, no
  suggestions and exactly one warning, of category \<open>General\<close>; nothing is raised, provided
  the logging calls that no \<^verbatim>\<open>try\<close> block protects (lines 91 and 95, and those of the
  handler) return.
\<close>

theorem blank_input_result:
  assumes "length (trim t) = 0" and "\<forall>line \<in> set outsideTry. \<not> F line"
  shows "\<exists>w. validateResumeDates F S cfg now t
           = Some \<lparr>isValid = True, issues = [], warnings = [w], suggestions = []\<rparr>
         \<and> vw_category w = General"
proof -
  from blank_body[OF assms(1), of F S cfg now] handled[OF assms(2), of S cfg now t]
  obtain m where "m \<noteq> []" "validateResumeDates F S cfg now t = Some (createEmptyValidationResult (Some m))"
    by (auto split: option.splits)
  then show ?thesis by (simp add: createEmpty_shape)
qed

section \<open>Removing duplicates\<close>

lemma dedupe_distinct:
  assumes "\<And>x y. key x = key y \<Longrightarrow> same x = same y"
  shows "distinct (map key (map snd (filter (\<lambda>(i, x). findIndex (same x) xs = Some i) (enumerate 0 xs))))"
proof -
  let ?Q = "\<lambda>(i, x). findIndex (same x) xs = Some i"
  have d: "distinct (filter ?Q (enumerate 0 xs))"
    by (simp add: distinct_enumerate)
  have "inj_on (key \<circ> snd) (set (filter ?Q (enumerate 0 xs)))"
  proof (rule inj_onI)
    fix p q
    assume p: "p \<in> set (filter ?Q (enumerate 0 xs))" and q: "q \<in> set (filter ?Q (enumerate 0 xs))"
      and k: "(key \<circ> snd) p = (key \<circ> snd) q"
    obtain i x where pe: "p = (i, x)" by (cases p)
    obtain j y where qe: "q = (j, y)" by (cases q)
    from k pe qe have "key x = key y" by simp
    then have "same x = same y" by (rule assms)
    moreover from p pe have "findIndex (same x) xs = Some i" by simp
    moreover from q qe have "findIndex (same y) xs = Some j" by simp
    ultimately have "i = j" by simp
    moreover from p pe have "x = xs ! i"
      by (simp add: in_set_enumerate_eq)
    moreover from q qe have "y = xs ! j"
      by (simp add: in_set_enumerate_eq)
    ultimately show "p = q" using pe qe by simp
  qed
  with d show ?thesis by (simp add: distinct_map)
qed

lemma findIndexFrom_Some:
  "findIndexFrom n p xs = Some i \<Longrightarrow> \<exists>k. i = n + k \<and> k < length xs \<and> p (xs ! k)"
proof (induction xs arbitrary: n)
  case Nil
  then show ?case by simp
next
  case (Cons x xs)
  show ?case
  proof (cases "p x")
    case True
    with Cons.prems have "i = n + 0 \<and> 0 < length (x # xs) \<and> p ((x # xs) ! 0)" by simp
    then show ?thesis by blast
  next
    case False
    with Cons.prems have "findIndexFrom (Suc n) p xs = Some i" by simp
    from Cons.IH[OF this] obtain k where "i = Suc n + k" "k < length xs" "p (xs ! k)" by blast
    then have "i = n + Suc k \<and> Suc k < length (x # xs) \<and> p ((x # xs) ! Suc k)" by simp
    then show ?thesis by blast
  qed
qed

lemma findIndex_Some: "findIndex p xs = Some i \<Longrightarrow> i < length xs \<and> p (xs ! i)"
  using findIndexFrom_Some[of 0 p xs i] by (simp add: findIndex_def)

lemma findIndexFrom_exists:
  "x \<in> set xs \<Longrightarrow> p x \<Longrightarrow> \<exists>i. findIndexFrom n p xs = Some i"
  by (induction xs arbitrary: n) auto

lemma dedupe_keys:
  assumes "\<And>x y. key x = key y \<longleftrightarrow> same x y"
  shows "set (map key (map snd (filter (\<lambda>(i, x). findIndex (same x) xs = Some i) (enumerate 0 xs))))
         = set (map key xs)"
proof (rule set_eqI, rule iffI)
  fix k
  assume "k \<in> set (map key (map snd (filter (\<lambda>(i, x). findIndex (same x) xs = Some i) (enumerate 0 xs))))"
  then obtain p where p: "p \<in> set (enumerate 0 xs)" and k: "k = key (snd p)" by auto
  obtain i x where pe: "p = (i, x)" by (cases p)
  from p pe have "x \<in> set xs" by (auto simp: in_set_enumerate_eq)
  with k pe show "k \<in> set (map key xs)" by simp
next
  fix k
  assume "k \<in> set (map key xs)"
  then obtain x where x: "x \<in> set xs" "key x = k" by auto
  from assms[of x x] have "same x x" by simp
  from findIndexFrom_exists[of x xs "same x" 0, OF x(1) this] obtain i where i: "findIndex (same x) xs = Some i"
    by (auto simp: findIndex_def)
  from findIndex_Some[OF i] have il: "i < length xs" and s: "same x (xs ! i)" by simp_all
  from s assms[of x "xs ! i"] have kk: "key (xs ! i) = key x" by simp
  have "same (xs ! i) = same x"
  proof
    fix z
    from kk assms[of "xs ! i" z] assms[of x z] show "same (xs ! i) z = same x z" by simp
  qed
  with i have "findIndex (same (xs ! i)) xs = Some i" by simp
  with il have m: "(i, xs ! i) \<in> set (filter (\<lambda>(i, x). findIndex (same x) xs = Some i) (enumerate 0 xs))"
    by (simp add: in_set_enumerate_eq)
  have "key (snd (i, xs ! i)) \<in> (\<lambda>p. key (snd p)) ` set (filter (\<lambda>(i, x). findIndex (same x) xs = Some i) (enumerate 0 xs))"
    using m by (rule imageI)
  then have "key (xs ! i) \<in> set (map key (map snd (filter (\<lambda>(i, x). findIndex (same x) xs = Some i) (enumerate 0 xs))))"
    by (simp add: comp_def)
  with kk x show "k \<in> set (map key (map snd (filter (\<lambda>(i, x). findIndex (same x) xs = Some i) (enumerate 0 xs))))"
    by simp
qed

section \<open>The ranked suggestions\<close>









section \<open>Runs on concrete inputs\<close>

lemmas demo_defs = demoStages_def demoSources_def demoSuggestions_def demoFutureIssue_def
  demoOrderIssue_def demoResult_def DEFAULT_VALIDATION_CONFIG_def demoNow_def

lemma trim_CV: "trim ''CV'' = ''CV''"
  by (simp add: trim_def isSpace_def)

lemma trim_blank: "trim ''   '' = []"
  by (simp add: trim_def isSpace_def)

lemma demo_ranking:
  "filterAndRankSuggestions demoSuggestions
     \<lparr>ctx_currentDate = demoNow, ctx_educationPeriods = [], ctx_workExperience = [],
      ctx_config = DEFAULT_VALIDATION_CONFIG, ctx_resumeText = ''CV''\<rparr>
   = suggestions demoResult"
  by (simp add: filterAndRankSuggestions_def uniqueSuggestions_def findIndex_def sameSuggestion_def
        demoSuggestions_def demoResult_def DEFAULT_VALIDATION_CONFIG_def)

lemma demo_run:
  "validateResumeDates noFaults demoStages DEFAULT_VALIDATION_CONFIG demoNow ''CV'' = Some demoResult"
  using demo_ranking
  by (simp add: validateResumeDates_def validationBody_def validationSteps_def trim_CV tryCatch_def
        parsingStage_noFaults validationStage_noFaults runValidators_def runSuggestions_def
        generateSuggestions_def assembleResult_def categorize_eq orEmpty_def convertedWarning_def
        demoStages_def demoSources_def demoFutureIssue_def demoOrderIssue_def demoResult_def
        DEFAULT_VALIDATION_CONFIG_def)

theorem isValid_iff_no_critical_witness:
  "validateResumeDates noFaults demoStages DEFAULT_VALIDATION_CONFIG demoNow ''CV'' = Some demoResult
   \<and> (isValid demoResult \<longleftrightarrow> (\<forall>i \<in> set (issues demoResult). vi_type i \<noteq> Critical))"
  using demo_run isValid_iff_no_critical[OF demo_run] by simp


lemma demo_fault_outside: "\<forall>line \<in> set outsideTry. \<not> faultAt 114 line"
  by (simp add: outsideTry_def faultAt_def)




lemma demo_produced:
  "producedIssues demoStages DEFAULT_VALIDATION_CONFIG demoNow ''CV'' = [demoOrderIssue, demoFutureIssue]"
  by (simp add: producedIssues_def contextOf_def orEmpty_def demoStages_def)

theorem low_confidence_critical_reclassified_witness:
  "length (trim ''CV'') \<noteq> 0
   \<and> demoFutureIssue \<in> set (producedIssues demoStages DEFAULT_VALIDATION_CONFIG demoNow ''CV'')
   \<and> vi_type demoFutureIssue = Critical
   \<and> vi_confidence demoFutureIssue < confidenceThreshold DEFAULT_VALIDATION_CONFIG
   \<and> validateResumeDates noFaults demoStages DEFAULT_VALIDATION_CONFIG demoNow ''CV'' = Some demoResult
   \<and> demoFutureIssue \<notin> set (issues demoResult)
   \<and> \<lparr>vw_category = vi_category demoFutureIssue, vw_message = vi_message demoFutureIssue,
       vw_context = vi_detectedDate demoFutureIssue\<rparr> \<in> set (warnings demoResult)
   \<and> (isValid demoResult \<longleftrightarrow>
        (\<forall>j \<in> set (producedIssues demoStages DEFAULT_VALIDATION_CONFIG demoNow ''CV'').
           vi_type j = Critical \<longrightarrow> vi_confidence j < confidenceThreshold DEFAULT_VALIDATION_CONFIG))"
proof -
  have h1: "length (trim ''CV'') \<noteq> 0" by (simp add: trim_CV)
  have h2: "demoFutureIssue \<in> set (producedIssues demoStages DEFAULT_VALIDATION_CONFIG demoNow ''CV'')"
    by (simp add: demo_produced)
  have h3: "vi_type demoFutureIssue = Critical" by (simp add: demoFutureIssue_def)
  have h4: "vi_confidence demoFutureIssue < confidenceThreshold DEFAULT_VALIDATION_CONFIG"
    by (simp add: demoFutureIssue_def DEFAULT_VALIDATION_CONFIG_def)
  from low_confidence_critical_reclassified[OF h1 h2 h3 h4] demo_run h1 h2 h3 h4 show ?thesis by auto
qed

theorem blank_input_result_witness:
  "length (trim ''   '') = 0
   \<and> list_all (\<lambda>line. \<not> noFaults line) outsideTry
   \<and> validateResumeDates noFaults demoStages DEFAULT_VALIDATION_CONFIG demoNow ''   ''
       = Some \<lparr>isValid = True, issues = [],
               warnings = [\<lparr>vw_category = General, vw_message = ''Empty resume text provided'',
                            vw_context = ''System error during validation''\<rparr>],
               suggestions = []\<rparr>"
proof -
  have h1: "length (trim ''   '') = 0" by (simp add: trim_blank)
  have h2: "\<forall>line \<in> set outsideTry. \<not> noFaults line" by (simp add: noFaults_def)
  have e: "validateResumeDates noFaults demoStages DEFAULT_VALIDATION_CONFIG demoNow ''   ''
       = Some (createEmptyValidationResult (Some ''Empty resume text provided''))"
    by (simp add: validateResumeDates_def validationBody_def trim_blank tryCatch_def)
  from blank_input_result[OF h1 h2, of demoStages DEFAULT_VALIDATION_CONFIG demoNow] e h1 h2 show ?thesis
    by (simp add: createEmpty_shape list_all_iff)
qed



section \<open>Ongoing keywords\<close>

lemma space_lower: "isSpace c \<Longrightarrow> toLowerChar c = c"
  by (auto simp: isSpace_def toLowerChar_def upperCaseLetters_def)

lemma startsWith_append: "startsWith (k @ q) k"
  by (induction k) simp_all

lemma includes_infix: "stringIncludes (p @ k @ q) k"
proof (induction p)
  case Nil
  show ?case using startsWith_append[of k q] by (cases "k @ q") auto
next
  case (Cons c p)
  then show ?case by simp
qed

lemma arraySome_iff: "arraySome p xs \<longleftrightarrow> (\<exists>x \<in> set xs. p x)"
  by (induction xs) simp_all

lemma trimEnd_keep:
  "ys \<noteq> [] \<Longrightarrow> \<not> isSpace (last ys) \<Longrightarrow> trimEnd (ys @ zs) = ys @ trimEnd zs"
proof (induction ys)
  case Nil
  then show ?case by simp
next
  case (Cons c ys)
  show ?case
  proof (cases "ys = []")
    case True
    with Cons.prems show ?thesis by (simp split: list.splits)
  next
    case False
    with Cons.prems have "trimEnd (ys @ zs) = ys @ trimEnd zs" using Cons.IH by simp
    with False show ?thesis by (cases ys) simp_all
  qed
qed

lemma dropWhile_keep:
  assumes "m \<noteq> []" "\<not> P (hd m)"
  shows "\<exists>a'. dropWhile P (a @ m @ b) = a' @ m @ b"
proof (cases "\<forall>x \<in> set a. P x")
  case True
  with assms have "dropWhile P (a @ m @ b) = [] @ m @ b"
    by (cases m) (simp_all add: dropWhile_append)
  then show ?thesis by blast
next
  case False
  then have "dropWhile P (a @ m @ b) = dropWhile P a @ m @ b"
    by (auto simp: dropWhile_append)
  then show ?thesis by blast
qed

lemma trim_keep:
  assumes "m \<noteq> []" "\<not> isSpace (hd m)" "\<not> isSpace (last m)"
  shows "\<exists>a' b'. trim (a @ m @ b) = a' @ m @ b'"
proof -
  from dropWhile_keep[of m isSpace a b] assms(1,2) obtain a' where
    d: "dropWhile isSpace (a @ m @ b) = a' @ m @ b" by blast
  from assms have "trimEnd ((a' @ m) @ b) = (a' @ m) @ trimEnd b"
    by (intro trimEnd_keep) simp_all
  with d have "trim (a @ m @ b) = a' @ m @ trimEnd b" by (simp add: trim_def)
  then show ?thesis by blast
qed

lemma keyword_props:
  assumes "kw \<in> set ONGOING_KEYWORDS"
  shows "kw \<noteq> []" "\<not> isSpace (hd kw)" "\<not> isSpace (last kw)" "toLowerCase kw = kw"
  using assms by (auto simp: ONGOING_KEYWORDS_def toLowerCase_def char_eval)

lemma lowered_nonspace:
  assumes "toLowerCase m = kw" "kw \<noteq> []" "\<not> isSpace (hd kw)" "\<not> isSpace (last kw)"
  shows "m \<noteq> []" "\<not> isSpace (hd m)" "\<not> isSpace (last m)"
proof -
  from assms(1,2) show ne: "m \<noteq> []" by (auto simp: toLowerCase_def)
  from assms(1) ne have h: "hd kw = toLowerChar (hd m)" and l: "last kw = toLowerChar (last m)"
    by (auto simp: toLowerCase_def hd_map last_map)
  from h assms(3) show "\<not> isSpace (hd m)" using space_lower[of "hd m"] by auto
  from l assms(4) show "\<not> isSpace (last m)" using space_lower[of "last m"] by auto
qed

text \<open>
  Claim C7. A string \<open>a @ m @ b\<close> whose part \<open>m\<close> is one of the ongoing keywords up to the
  case of its letters is parsed by \<^verbatim>\<open>parseDate\<close> into a date with \<open>isOngoing = True\<close>,
  confidence \<open>1\<close>, format \<open>PRESENT\<close>, the current date as normalized date, and the string
  itself as original.
\<close>

theorem ongoing_keyword_parse:
  assumes "kw \<in> set ONGOING_KEYWORDS" and "toLowerCase m = kw"
  shows "parseDate now (a @ m @ b) =
           Some \<lparr>pd_original = a @ m @ b, pd_normalized = now, pd_format = PRESENT,
                 pd_isOngoing = True, pd_confidence = 1\<rparr>"
proof -
  note k = keyword_props[OF assms(1)]
  note mm = lowered_nonspace[OF assms(2) k(1,2,3)]
  from trim_keep[OF mm, of a b] obtain a' b' where t: "trim (a @ m @ b) = a' @ m @ b'" by blast
  have "toLowerCase (trim (a @ m @ b)) = toLowerCase a' @ kw @ toLowerCase b'"
    using t assms(2) by (simp add: toLowerCase_def)
  then have "stringIncludes (toLowerCase (trim (a @ m @ b))) (toLowerCase kw)"
    using includes_infix k(4) by simp
  with assms(1) have o: "isOngoingIndicator (toLowerCase (trim (a @ m @ b)))"
    by (auto simp: isOngoingIndicator_def arraySome_iff)
  from mm(1) t have "a @ m @ b \<noteq> []" "length (trim (a @ m @ b)) \<noteq> 0" by simp_all
  with o show ?thesis by (simp add: parseDate_def EXACT_MATCH_def)
qed

theorem ongoing_keyword_parse_witness:
  "''present'' \<in> set ONGOING_KEYWORDS \<and> toLowerCase ''PRESENT'' = ''present''
   \<and> parseDate demoNow (''Since 2019 - '' @ ''PRESENT'' @ '' '') =
       Some \<lparr>pd_original = ''Since 2019 - '' @ ''PRESENT'' @ '' '', pd_normalized = demoNow,
             pd_format = PRESENT, pd_isOngoing = True, pd_confidence = 1\<rparr>"
proof -
  have h1: "''present'' \<in> set ONGOING_KEYWORDS" by (simp add: ONGOING_KEYWORDS_def)
  have h2: "toLowerCase ''PRESENT'' = ''present''" by (simp add: toLowerCase_def char_eval)
  from ongoing_keyword_parse[OF h1 h2, of demoNow "''Since 2019 - ''" "'' ''"] h1 h2 show ?thesis by simp
qed

section \<open>Dates with slashes\<close>

lemma digit_props:
  assumes "isDigit c"
  shows "\<not> isSpace c" "isWordChar c" "toLowerChar c = c" "c \<noteq> CHR ''/''"
  using assms by (auto simp: isDigit_def isSpace_def isWordChar_def toLowerChar_def upperCaseLetters_def)

lemma slash_props:
  "\<not> isSpace (CHR ''/'')" "\<not> isWordChar (CHR ''/'')" "toLowerChar (CHR ''/'') = CHR ''/''"
  "\<not> isDigit (CHR ''/'')"
  by (simp_all add: char_eval)

lemma digitValue_le: "digitValue c \<le> 9"
  by (simp add: digitValue_def findIndex_def)

lemma digitValue_iff:
  assumes "isDigit c"
  shows "digitValue c = 0 \<longleftrightarrow> c = CHR ''0''" "digitValue c = 1 \<longleftrightarrow> c = CHR ''1''"
    "digitValue c = 2 \<longleftrightarrow> c = CHR ''2''" "digitValue c = 9 \<longleftrightarrow> c = CHR ''9''"
  using assms by (auto simp: isDigit_def digitValue_def findIndex_def)

lemma parseInt4:
  "parseInt [y1, y2, y3, y4] = 1000 * digitValue y1 + 100 * digitValue y2 + 10 * digitValue y3 + digitValue y4"
  by (simp add: parseInt_def)

lemma year_prefix:
  assumes "isDigit y1" "isDigit y2"
    and "1950 \<le> int (parseInt [y1, y2, y3, y4])" "int (parseInt [y1, y2, y3, y4]) \<le> 2099"
  shows "(y1 = CHR ''1'' \<and> y2 = CHR ''9'') \<or> (y1 = CHR ''2'' \<and> y2 = CHR ''0'')"
proof -
  define a b c d where "a = digitValue y1" and "b = digitValue y2" and "c = digitValue y3"
    and "d = digitValue y4"
  have le: "a \<le> 9" "b \<le> 9" "c \<le> 9" "d \<le> 9"
    by (simp_all add: a_def b_def c_def d_def digitValue_le)
  from assms(3,4) have lo: "1950 \<le> 1000 * a + 100 * b + 10 * c + d"
    and hi: "1000 * a + 100 * b + 10 * c + d \<le> 2099"
    unfolding parseInt4 a_def b_def c_def d_def by linarith+
  from hi have a2: "a \<le> 2" by linarith
  from lo le have a1: "1 \<le> a" by linarith
  from a1 a2 have "a = 1 \<or> a = 2" by linarith
  then have "(a = 1 \<and> b = 9) \<or> (a = 2 \<and> b = 0)"
  proof
    assume "a = 1"
    with lo le have "9 \<le> b" by linarith
    with le \<open>a = 1\<close> show ?thesis by simp
  next
    assume "a = 2"
    with hi have "b = 0" by linarith
    with \<open>a = 2\<close> show ?thesis by simp
  qed
  then show ?thesis
    using digitValue_iff[OF assms(1)] digitValue_iff[OF assms(2)] by (simp add: a_def b_def)
qed

lemma includes_hd: "stringIncludes s (k # ks) \<Longrightarrow> k \<in> set s"
  by (induction s) (auto split: if_splits)

lemma no_keyword:
  assumes "\<forall>c \<in> set s. isDigit c \<or> c = CHR ''/''"
  shows "\<not> isOngoingIndicator s"
  using assms
  by (auto simp: isOngoingIndicator_def arraySome_iff ONGOING_KEYWORDS_def toLowerCase_def char_eval
      dest!: includes_hd)

lemma reMonthYear_letter:
  "toLowerChar c \<notin> set ''jfmasond'' \<Longrightarrow> reMonthYear prev (c # cs) = None"
  by (simp add: reMonthYear_def monthYearAlt_def monthAbbreviations_def monthNames_def)

lemma reMonthYear_Nil: "reMonthYear prev [] = None"
  by (simp add: reMonthYear_def monthYearAlt_def monthAbbreviations_def monthNames_def)

lemma no_month:
  assumes "\<forall>c \<in> set s. isDigit c \<or> c = CHR ''/''"
  shows "firstMatchFrom reMonthYear prev pos s = None"
  using assms
proof (induction s arbitrary: prev pos)
  case Nil
  then show ?case by (simp add: reMonthYear_Nil)
next
  case (Cons c cs)
  from Cons.prems have "isDigit c \<or> c = CHR ''/''" by simp
  then have "toLowerChar c \<notin> set ''jfmasond''"
    by (auto simp: digit_props(3) isDigit_def char_eval)
  from reMonthYear_letter[OF this] Cons show ?case by simp
qed

lemma parseMonthYear_none:
  assumes "\<forall>c \<in> set s. isDigit c \<or> c = CHR ''/''"
  shows "parseMonthYear now s = None"
  by (simp add: parseMonthYear_def firstMatch_def no_month[OF assms])

lemma short_cases:
  assumes "xs \<noteq> []" "length xs \<le> 2"
  shows "(\<exists>a. xs = [a]) \<or> (\<exists>a b. xs = [a, b])"
proof (cases xs)
  case Nil
  with assms show ?thesis by simp
next
  case (Cons a as)
  with assms show ?thesis by (cases as) auto
qed

lemma four_cases: "length ys = 4 \<Longrightarrow> \<exists>a b c d. ys = [a, b, c, d]"
  by (auto simp: length_Suc_conv eval_nat_numeral)

lemma year_match:
  assumes "ms = [m1] \<or> ms = [m1, m2]" and "ds = [d1] \<or> ds = [d1, d2]"
    and "isDigit m1" "isDigit m2" "isDigit d1" "isDigit d2"
    and "isDigit y1" "isDigit y2" "isDigit y3" "isDigit y4"
    and "(y1 = CHR ''1'' \<and> y2 = CHR ''9'') \<or> (y1 = CHR ''2'' \<and> y2 = CHR ''0'')"
  shows "\<exists>idx groups. firstMatch reYearOnly (ms @ ''/'' @ ds @ ''/'' @ [y1, y2, y3, y4]) = Some (idx, 4, groups)
           \<and> matchedText (ms @ ''/'' @ ds @ ''/'' @ [y1, y2, y3, y4]) idx 4 = [y1, y2, y3, y4]"
  using assms
  by (elim disjE conjE)
     (simp_all add: firstMatch_def reYearOnly_def prevIsWord_def nextIsWord_def fourDigits_def
        matchedText_def digit_props slash_props char_eval)

lemma trim_digits:
  assumes "s = c # cs" "isDigit c" "isDigit (last s)"
  shows "trim s = s"
proof -
  from assms have d: "dropWhile isSpace s = s" by (simp add: digit_props)
  from assms have "trimEnd (s @ []) = s @ trimEnd []"
    by (intro trimEnd_keep) (simp_all add: digit_props)
  with d show ?thesis by (simp add: trim_def)
qed

lemma lower_digits:
  assumes "\<forall>c \<in> set s. isDigit c \<or> c = CHR ''/''"
  shows "toLowerCase s = s"
  using assms by (induction s) (auto simp: toLowerCase_def digit_props slash_props)

lemma short_digits:
  assumes "xs \<noteq> []" "length xs \<le> 2" "list_all isDigit xs"
  shows "\<exists>a b. (xs = [a] \<or> xs = [a, b]) \<and> isDigit a \<and> isDigit b"
proof -
  from short_cases[OF assms(1,2)] show ?thesis
  proof
    assume "\<exists>a. xs = [a]"
    then obtain a where "xs = [a]" by blast
    with assms(3) have "(xs = [a] \<or> xs = [a, a]) \<and> isDigit a \<and> isDigit a" by simp
    then show ?thesis by blast
  next
    assume "\<exists>a b. xs = [a, b]"
    then obtain a b where "xs = [a, b]" by blast
    with assms(3) have "(xs = [a] \<or> xs = [a, b]) \<and> isDigit a \<and> isDigit b" by simp
    then show ?thesis by blast
  qed
qed

text \<open>
  Claim C10. A string \<open>M/D/YYYY\<close> of one or two digits, a slash, one or two digits, a slash
  and four digits, whose year lies between 1950 and the current year plus ten and is at most
  2099, is parsed by \<^verbatim>\<open>parseDate\<close> with format \<open>YEAR_ONLY\<close>, confidence 0.8 and 1 January
  of that year as normalized date, whatever the month and the day are: the year-only parser
  comes before the full-date parser and finds the year. (The year-only pattern asks for a
  year that begins with 19 or 20, hence the bound 2099.)
\<close>

theorem slash_date_year_only:
  assumes "ms \<noteq> []" "length ms \<le> 2" "list_all isDigit ms"
      and "ds \<noteq> []" "length ds \<le> 2" "list_all isDigit ds"
      and "length ys = 4" "list_all isDigit ys"
      and "1950 \<le> int (parseInt ys)" "int (parseInt ys) \<le> getFullYear now + 10"
      and "int (parseInt ys) \<le> 2099"
  shows "parseDate now (ms @ ''/'' @ ds @ ''/'' @ ys) =
           Some \<lparr>pd_original = ms @ ''/'' @ ds @ ''/'' @ ys,
                 pd_normalized = newDate (int (parseInt ys)) 0 1,
                 pd_format = YEAR_ONLY, pd_isOngoing = False, pd_confidence = 8 / 10\<rparr>"
proof -
  let ?s = "ms @ ''/'' @ ds @ ''/'' @ ys"
  from four_cases[OF assms(7)] obtain y1 y2 y3 y4 where ys: "ys = [y1, y2, y3, y4]" by blast
  with assms(8) have dy: "isDigit y1" "isDigit y2" "isDigit y3" "isDigit y4" by simp_all
  from short_digits[OF assms(1,2,3)] obtain m1 m2 where
    ms: "ms = [m1] \<or> ms = [m1, m2]" and dm: "isDigit m1" "isDigit m2" by blast
  from short_digits[OF assms(4,5,6)] obtain d1 d2 where
    ds: "ds = [d1] \<or> ds = [d1, d2]" and dd: "isDigit d1" "isDigit d2" by blast
  from assms(9,11) have pre: "(y1 = CHR ''1'' \<and> y2 = CHR ''9'') \<or> (y1 = CHR ''2'' \<and> y2 = CHR ''0'')"
    unfolding ys by (rule year_prefix[OF dy(1,2)])
  from year_match[OF ms ds dm dd dy pre] obtain idx groups where
    fm: "firstMatch reYearOnly ?s = Some (idx, 4, groups)" and mt: "matchedText ?s idx 4 = ys"
    unfolding ys by blast
  have chars: "\<forall>c \<in> set ?s. isDigit c \<or> c = CHR ''/''"
    using assms(3,6,8) by (auto simp: list_all_iff)
  have ne: "?s \<noteq> []" by simp
  have "?s = m1 # tl ?s" "last ?s = y4" using ms by (auto simp: ys)
  with dm(1) dy(4) have tr: "trim ?s = ?s" using trim_digits[of ?s m1 "tl ?s"] by simp
  have lo: "toLowerCase ?s = ?s" using chars by (rule lower_digits)
  have on: "\<not> isOngoingIndicator ?s" using chars by (rule no_keyword)
  have my: "parseMonthYear now ?s = None" using chars by (rule parseMonthYear_none)
  have yo: "parseYearOnly now ?s = Some (newDate (int (parseInt ys)) 0 1, YEAR_ONLY, 8 / 10)"
    using assms(9,10) fm mt by (simp add: parseYearOnly_def isValidYear_def PATTERN_MATCH_def)
  show ?thesis
    unfolding parseDate_def tr lo using ne on my yo by simp
qed

theorem slash_date_year_only_witness:
  "parseDate demoNow ''01/15/2023'' =
     Some \<lparr>pd_original = ''01/15/2023'',
           pd_normalized = \<lparr>getFullYear = 2023, getMonth = 0, getDate = 1, timeOfDay = 0\<rparr>,
           pd_format = YEAR_ONLY, pd_isOngoing = False, pd_confidence = 8 / 10\<rparr>"
proof -
  have p: "int (parseInt ''2023'') = 2023" by (simp add: parseInt_def digitValue_def findIndex_def)
  have d: "list_all isDigit ''01''" "list_all isDigit ''15''" "list_all isDigit ''2023''"
    by (simp_all add: char_eval)
  have n: "newDate 2023 0 1 = \<lparr>getFullYear = 2023, getMonth = 0, getDate = 1, timeOfDay = 0\<rparr>"
    by (simp add: newDate_def daysInMonth_def)
  from slash_date_year_only[of "''01''" "''15''" "''2023''" demoNow] d p n show ?thesis
    by (simp add: demoNow_def)
qed

text \<open>
  The bound on the year cannot go: with the clock in 2095 the year 2100 is a valid year, the
  year-only pattern does not match it, and the full-date parser is reached.
\<close>

theorem slash_date_2100_full_date:
  "isValidDate lateNow 1 15 2100
   \<and> parseDate lateNow ''01/15/2100'' =
     Some \<lparr>pd_original = ''01/15/2100'',
           pd_normalized = \<lparr>getFullYear = 2100, getMonth = 0, getDate = 15, timeOfDay = 0\<rparr>,
           pd_format = FULL_DATE, pd_isOngoing = False, pd_confidence = 1\<rparr>"
  by (simp add: char_eval regex_defs parser_defs lateNow_def)

section \<open>The extracted dates\<close>

lemma sameDate_key: "dateKey x = dateKey y \<longleftrightarrow> sameDate x y"
  by (auto simp: dateKey_def sameDate_def)

lemma sameDate_key_fun: "dateKey x = dateKey y \<Longrightarrow> sameDate x = sameDate y"
  by (auto simp: dateKey_def sameDate_def fun_eq_iff)

lemma dedup_sorted: "sorted (map ed_startIndex (deduplicateAndSort xs))"
  by (simp add: deduplicateAndSort_def)

lemma dedup_distinct: "distinct (map dateKey (deduplicateAndSort xs))"
proof -
  let ?u = "map snd (filter (\<lambda>(index, date). findIndex (sameDate date) xs = Some index) (enumerate 0 xs))"
  have "distinct (map dateKey ?u)"
    using dedupe_distinct[of dateKey sameDate xs] sameDate_key_fun by blast
  moreover have "mset (deduplicateAndSort xs) = mset ?u"
    by (simp add: deduplicateAndSort_def)
  then have "mset (map dateKey (deduplicateAndSort xs)) = mset (map dateKey ?u)"
    by (metis mset_map)
  ultimately show ?thesis by (metis mset_eq_imp_distinct_iff)
qed

lemma dedup_keys: "set (map dateKey (deduplicateAndSort xs)) = set (map dateKey xs)"
proof -
  let ?u = "map snd (filter (\<lambda>(index, date). findIndex (sameDate date) xs = Some index) (enumerate 0 xs))"
  have "set (deduplicateAndSort xs) = set ?u"
    by (simp add: deduplicateAndSort_def)
  then have "set (map dateKey (deduplicateAndSort xs)) = set (map dateKey ?u)"
    by (metis list.set_map)
  also have "\<dots> = set (map dateKey xs)"
    using dedupe_keys[of dateKey sameDate xs] sameDate_key by blast
  finally show ?thesis .
qed

lemma isValidYear_year: "getFullYear now' = getFullYear now \<Longrightarrow> isValidYear now' y = isValidYear now y"
  by (simp add: isValidYear_def)

lemma parsers_year:
  assumes "getFullYear now' = getFullYear now"
  shows "parseMonthYear now' = parseMonthYear now"
    and "parseYearOnly now' = parseYearOnly now"
    and "parseFullDate now' = parseFullDate now"
  unfolding parseMonthYear_def parseYearOnly_def parseFullDate_def isValidDate_def isValidYear_def assms
  by (rule refl)+

lemma parseDate_year:
  assumes "getFullYear now' = getFullYear now"
  shows "(parseDate now' x = None) = (parseDate now x = None)"
  unfolding parseDate_def Let_def firstSome.simps parsers_year[OF assms]
  by (simp split: option.splits)

lemma extractDateRange_keys:
  assumes "getFullYear now' = getFullYear now" and "map dateKey acc' = map dateKey acc"
  shows "map dateKey (extractDateRange now' s m acc') = map dateKey (extractDateRange now s m acc)"
proof -
  obtain i l g where m: "m = (i, l, g)" by (cases m)
  show ?thesis
  proof (cases "\<exists>a b. g = [a, b]")
    case True
    then obtain a b where g: "g = [a, b]" by blast
    from parseDate_year[OF assms(1), of a] parseDate_year[OF assms(1), of b] assms(2)
    show ?thesis
      by (cases "parseDate now' a"; cases "parseDate now a"; cases "parseDate now' b"; cases "parseDate now b")
         (simp_all add: extractDateRange_def m g Let_def dateKey_def)
  next
    case False
    then have "extractDateRange now' s m acc' = acc'" "extractDateRange now s m acc = acc"
      by (auto simp: extractDateRange_def m split: list.splits)
    with assms(2) show ?thesis by simp
  qed
qed

lemma pushMatch_keys:
  assumes "getFullYear now' = getFullYear now" and "map dateKey acc' = map dateKey acc"
  shows "map dateKey (pushMatch now' s p acc' m) = map dateKey (pushMatch now s p acc m)"
  using assms extractDateRange_keys[OF assms]
  by (auto simp: pushMatch_def Let_def dateKey_def split: prod.splits)

lemma foldl_pushMatch_keys:
  assumes "getFullYear now' = getFullYear now"
  shows "map dateKey acc' = map dateKey acc \<Longrightarrow>
     map dateKey (foldl (pushMatch now' s p) acc' ms) = map dateKey (foldl (pushMatch now s p) acc ms)"
proof (induction ms arbitrary: acc acc')
  case Nil
  then show ?case by simp
next
  case (Cons m ms)
  from pushMatch_keys[OF assms Cons.prems] have
    "map dateKey (pushMatch now' s p acc' m) = map dateKey (pushMatch now s p acc m)" .
  from Cons.IH[OF this] show ?case by simp
qed

lemma foldl_runPattern_keys:
  assumes "getFullYear now' = getFullYear now"
  shows "map dateKey acc' = map dateKey acc \<Longrightarrow>
     map dateKey (foldl (runPattern now' s) acc' ps) = map dateKey (foldl (runPattern now s) acc ps)"
proof (induction ps arbitrary: acc acc')
  case Nil
  then show ?case by simp
next
  case (Cons p ps)
  from foldl_pushMatch_keys[OF assms Cons.prems] have
    "map dateKey (runPattern now' s acc' p) = map dateKey (runPattern now s acc p)"
    by (simp add: runPattern_def)
  from Cons.IH[OF this] show ?case by simp
qed

lemma extract_keys_year:
  assumes "getFullYear now' = getFullYear now"
  shows "set (map dateKey (extractDatesFromText now' s)) = set (map dateKey (extractDatesFromText now s))"
proof -
  have "map dateKey (foldl (runPattern now' s) [] patterns) = map dateKey (foldl (runPattern now s) [] patterns)"
    using foldl_runPattern_keys[OF assms, of "[]" "[]"] by simp
  then have "set (map dateKey (deduplicateAndSort (foldl (runPattern now' s) [] patterns)))
           = set (map dateKey (deduplicateAndSort (foldl (runPattern now s) [] patterns)))"
    by (simp only: dedup_keys)
  then show ?thesis by (simp add: extractDatesFromText_def)
qed

text \<open>
  Claim C8. The list that \<^verbatim>\<open>extractDatesFromText\<close> returns is sorted in ascending order of
  \<open>startIndex\<close>, no two of its entries have the same pair of \<open>startIndex\<close> and \<open>text\<close>, and
  a second run on the same text yields the same set of such pairs, also when the clock has
  moved between the two runs, as long as it stays in the same calendar year.
\<close>

theorem extraction_sorted_distinct_stable:
  "sorted (map ed_startIndex (extractDatesFromText now s))
   \<and> distinct (map dateKey (extractDatesFromText now s))
   \<and> (getFullYear now' = getFullYear now \<longrightarrow>
        set (map dateKey (extractDatesFromText now' s)) = set (map dateKey (extractDatesFromText now s)))"
  using dedup_sorted dedup_distinct extract_keys_year[of now' now s]
  by (simp add: extractDatesFromText_def)

theorem extraction_sorted_distinct_stable_witness:
  "getFullYear demoLater = getFullYear demoNow
   \<and> sorted (map ed_startIndex (extractDatesFromText demoNow scenario4))
   \<and> distinct (map dateKey (extractDatesFromText demoNow scenario4))
   \<and> set (map dateKey (extractDatesFromText demoLater scenario4))
       = set (map dateKey (extractDatesFromText demoNow scenario4))"
proof -
  have y: "getFullYear demoLater = getFullYear demoNow"
    by (simp add: demoLater_def demoNow_def)
  from extraction_sorted_distinct_stable[of demoNow scenario4 demoLater] y show ?thesis by simp
qed

subsection \<open>The malformed range of scenario 4\<close>











section \<open>The education period of scenario 1\<close>




















end
